theory Spec2Isabelle
  imports Complex_Main "HOL-Library.Char_ord" "HOL-Library.List_Lexorder" "HOL-Library.Sublist"
begin

section \<open>Strings\<close>

text \<open>
  A Python \<open>str\<close> is modelled by the list of the bytes of its UTF-8 encoding. The encoding
  is injective, so equality of labels is equality of byte lists, and it preserves the order of
  code points, so the lexicographic order of byte lists is the order Python's \<open>sorted\<close>
  uses on strings. Labels that are not ASCII are written byte by byte.
\<close>

subsection \<open>Company labels of the name mapping\<close>

text \<open>Display label of line 127 (katakana, Fuji Retailing).\<close>

definition fuji_retailing :: string where
  "fuji_retailing = [CHR 0xE3, CHR 0x83, CHR 0x95, CHR 0xE3, CHR 0x82, CHR 0xB8, CHR 0xE3,
    CHR 0x83, CHR 0xBB, CHR 0xE3, CHR 0x83, CHR 0xAA, CHR 0xE3, CHR 0x83, CHR 0x86, CHR 0xE3,
    CHR 0x82, CHR 0xA4, CHR 0xE3, CHR 0x83, CHR 0xAA, CHR 0xE3, CHR 0x83, CHR 0xB3, CHR 0xE3,
    CHR 0x82, CHR 0xB0]"

text \<open>Data label of line 127 (katakana, Fuji).\<close>

definition fuji :: string where
  "fuji = [CHR 0xE3, CHR 0x83, CHR 0x95, CHR 0xE3, CHR 0x82, CHR 0xB8]"

text \<open>Display label of line 129 (Maxvalu Tokai, short spelling).\<close>

definition maxvalu_tokai :: string where
  "maxvalu_tokai = [CHR 0xE3, CHR 0x83, CHR 0x9E, CHR 0xE3, CHR 0x83, CHR 0x83, CHR 0xE3,
    CHR 0x82, CHR 0xAF, CHR 0xE3, CHR 0x82, CHR 0xB9, CHR 0xE3, CHR 0x83, CHR 0x90, CHR 0xE3,
    CHR 0x83, CHR 0xAA, CHR 0xE3, CHR 0x83, CHR 0xA5, CHR 0xE6, CHR 0x9D, CHR 0xB1, CHR 0xE6,
    CHR 0xB5, CHR 0xB7]"

text \<open>Data label of line 129 (Maxvalu Tokai, spelled with a long vowel mark).\<close>

definition maxvaluu_tokai :: string where
  "maxvaluu_tokai = [CHR 0xE3, CHR 0x83, CHR 0x9E, CHR 0xE3, CHR 0x83, CHR 0x83, CHR 0xE3,
    CHR 0x82, CHR 0xAF, CHR 0xE3, CHR 0x82, CHR 0xB9, CHR 0xE3, CHR 0x83, CHR 0x90, CHR 0xE3,
    CHR 0x83, CHR 0xAA, CHR 0xE3, CHR 0x83, CHR 0xA5, CHR 0xE3, CHR 0x83, CHR 0xBC, CHR 0xE6,
    CHR 0x9D, CHR 0xB1, CHR 0xE6, CHR 0xB5, CHR 0xB7]"

section \<open>Name mapper (lines 126 to 149)\<close>

text \<open>
  A dict literal or comprehension is the list of its items in insertion order; where a key
  occurs twice the later item wins, so a lookup reads the reversed list.
\<close>

definition dict_lookup :: "('k \<times> 'v) list \<Rightarrow> 'k \<Rightarrow> 'v option" where
  "dict_lookup items k = map_of (rev items) k"

text \<open>\<open>d.get(k, default)\<close>.\<close>

definition dict_get :: "('k \<times> 'v) list \<Rightarrow> 'k \<Rightarrow> 'v \<Rightarrow> 'v" where
  "dict_get items k dflt = (case dict_lookup items k of Some v \<Rightarrow> v | None \<Rightarrow> dflt)"

definition COMPANY_NAME_MAPPING :: "(string \<times> string) list" where
  "COMPANY_NAME_MAPPING =
     [(fuji_retailing, fuji), (''U.S.M.H'', ''USMH''), (maxvalu_tokai, maxvaluu_tokai)]"

text \<open>\<open>{v: k for k, v in COMPANY_NAME_MAPPING.items()}\<close>.\<close>

definition COMPANY_NAME_REVERSE_MAPPING :: "(string \<times> string) list" where
  "COMPANY_NAME_REVERSE_MAPPING = map (\<lambda>(k, v). (v, k)) COMPANY_NAME_MAPPING"

definition get_data_name :: "string \<Rightarrow> string" where
  "get_data_name display_name = dict_get COMPANY_NAME_MAPPING display_name display_name"

definition get_display_name :: "string \<Rightarrow> string" where
  "get_display_name data_name = dict_get COMPANY_NAME_REVERSE_MAPPING data_name data_name"

definition get_data_names :: "string list \<Rightarrow> string list" where
  "get_data_names display_names = map get_data_name display_names"

definition get_display_names :: "string list \<Rightarrow> string list" where
  "get_display_names data_names = map get_display_name data_names"

section \<open>Numbers\<close>

text \<open>
  The values of a float64 array. A finite value is the real number it denotes and arithmetic
  on finite values is exact: rounding, overflow and the sign of zero are not modelled. The
  values of an int64 array and Python's numbers are finite values.
\<close>

datatype fl = Fin real | NaN | PInf | NInf

text \<open>Division of float64 values, which never raises.\<close>

fun fl_div :: "fl \<Rightarrow> fl \<Rightarrow> fl" where
  "fl_div NaN y = NaN"
| "fl_div x NaN = NaN"
| "fl_div (Fin a) (Fin b) =
     (if b \<noteq> 0 then Fin (a / b) else if 0 < a then PInf else if a < 0 then NInf else NaN)"
| "fl_div (Fin a) y = Fin 0"
| "fl_div PInf (Fin b) = (if b < 0 then NInf else PInf)"
| "fl_div NInf (Fin b) = (if b < 0 then PInf else NInf)"
| "fl_div x y = NaN"

text \<open>\<open>x != y\<close>, \<open>x < y\<close>, \<open>x > y\<close>, \<open>x >= y\<close> and \<open>np.abs\<close>; a comparison with
  NaN is false, except \<open>!=\<close>, which is true.\<close>

definition fl_ne :: "fl \<Rightarrow> fl \<Rightarrow> bool" where
  "fl_ne x y = (x = NaN \<or> y = NaN \<or> x \<noteq> y)"

fun fl_lt :: "fl \<Rightarrow> fl \<Rightarrow> bool" where
  "fl_lt (Fin a) (Fin b) = (a < b)"
| "fl_lt (Fin a) PInf = True"
| "fl_lt NInf (Fin b) = True"
| "fl_lt NInf PInf = True"
| "fl_lt x y = False"

definition fl_gt :: "fl \<Rightarrow> fl \<Rightarrow> bool" where
  "fl_gt x y = fl_lt y x"

definition fl_ge :: "fl \<Rightarrow> fl \<Rightarrow> bool" where
  "fl_ge x y = (x \<noteq> NaN \<and> y \<noteq> NaN \<and> \<not> fl_lt x y)"

fun fl_abs :: "fl \<Rightarrow> fl" where
  "fl_abs (Fin a) = Fin \<bar>a\<bar>"
| "fl_abs NaN = NaN"
| "fl_abs PInf = PInf"
| "fl_abs NInf = PInf"

text \<open>\<open>pd.notna\<close> and \<open>fillna\<close> on one value.\<close>

definition notna :: "fl \<Rightarrow> bool" where
  "notna x = (x \<noteq> NaN)"

definition fillna :: "fl \<Rightarrow> fl \<Rightarrow> fl" where
  "fillna dflt x = (if x = NaN then dflt else x)"

definition is_finite :: "fl \<Rightarrow> bool" where
  "is_finite x = (case x of Fin a \<Rightarrow> True | _ \<Rightarrow> False)"

section \<open>Guarded division (lines 62 to 64)\<close>

text \<open>
  \<open>safe_divide\<close> has no type annotations. An argument is a plain Python number, an \<open>int\<close> or
  a \<open>float\<close>, or a pandas Series (every call site passes Series of one frame). A Series is
  the list of its index labels with their values, in the order of the index.
\<close>

datatype error = ZeroDivisionError | OverflowError | ValueError | KeyError | TypeError

type_synonym series = "(int \<times> fl) list"

datatype operand = PyInt int | PyFloat fl | Series series

datatype truth = PyBool bool | Mask "bool list"

text \<open>The result of \<open>np.where\<close>: a 0-dimensional array when all arguments are scalars.\<close>

datatype ndarray = Arr0 fl | Arr1 "fl list"

text \<open>
  Python converts an \<open>int\<close> to a \<open>float\<close>, and divides two \<open>int\<close>s, with OverflowError when
  the result rounds beyond the largest float, that is from \<open>2^1024 - 2^970\<close> on.
\<close>

definition too_large :: "real \<Rightarrow> bool" where
  "too_large x = (2 ^ 1024 - 2 ^ 970 \<le> \<bar>x\<bar>)"

text \<open>
  \<open>numerator / denominator\<close>. Between two Python numbers it is Python's division, which
  raises on a zero divisor. With a Series it is the division of pandas, which never raises on
  a zero divisor; a Python \<open>int\<close> is converted to a float first. Two Series with the same
  index are divided position by position. Two Series with different indexes are aligned
  first: \<open>align\<close> is that operation of pandas (\<open>Series.align\<close>, whose code is not part of this
  program), giving both operands on the joint index.
\<close>

fun truediv ::
  "(series \<Rightarrow> series \<Rightarrow> series \<times> series) \<Rightarrow> operand \<Rightarrow> operand \<Rightarrow> error + operand" where
  "truediv align (PyInt a) (PyInt b) =
     (if b = 0 then Inl ZeroDivisionError
      else if too_large (real_of_int a / real_of_int b) then Inl OverflowError
      else Inr (PyFloat (Fin (real_of_int a / real_of_int b))))"
| "truediv align (PyInt a) (PyFloat y) =
     (if too_large (real_of_int a) then Inl OverflowError
      else if y = Fin 0 then Inl ZeroDivisionError
      else Inr (PyFloat (fl_div (Fin (real_of_int a)) y)))"
| "truediv align (PyFloat x) (PyInt b) =
     (if too_large (real_of_int b) then Inl OverflowError
      else if b = 0 then Inl ZeroDivisionError
      else Inr (PyFloat (fl_div x (Fin (real_of_int b)))))"
| "truediv align (PyFloat x) (PyFloat y) =
     (if y = Fin 0 then Inl ZeroDivisionError else Inr (PyFloat (fl_div x y)))"
| "truediv align (PyInt a) (Series ys) =
     (if too_large (real_of_int a) then Inl OverflowError
      else Inr (Series (map (\<lambda>(i, y). (i, fl_div (Fin (real_of_int a)) y)) ys)))"
| "truediv align (PyFloat x) (Series ys) = Inr (Series (map (\<lambda>(i, y). (i, fl_div x y)) ys))"
| "truediv align (Series xs) (PyInt b) =
     (if too_large (real_of_int b) then Inl OverflowError
      else Inr (Series (map (\<lambda>(i, x). (i, fl_div x (Fin (real_of_int b)))) xs)))"
| "truediv align (Series xs) (PyFloat y) = Inr (Series (map (\<lambda>(i, x). (i, fl_div x y)) xs))"
| "truediv align (Series xs) (Series ys) =
     (let (xs', ys') = (if map fst xs = map fst ys then (xs, ys) else align xs ys)
      in Inr (Series (map2 (\<lambda>(i, x) (j, y). (i, fl_div x y)) xs' ys')))"

text \<open>\<open>denominator != 0\<close>.\<close>

fun ne_zero :: "operand \<Rightarrow> truth" where
  "ne_zero (PyInt b) = PyBool (b \<noteq> 0)"
| "ne_zero (PyFloat y) = PyBool (fl_ne y (Fin 0))"
| "ne_zero (Series ys) = Mask (map (\<lambda>(i, y). fl_ne y (Fin 0)) ys)"

text \<open>
  \<open>np.where(cond, q, default)\<close> for a number \<open>default\<close>. numpy takes the values of a Series
  by position; two arrays must have one length, or one of them the length 1, which is then
  repeated.
\<close>

fun np_where :: "truth \<Rightarrow> operand \<Rightarrow> fl \<Rightarrow> error + ndarray" where
  "np_where (PyBool c) (PyInt v) d = Inr (Arr0 (if c then Fin (real_of_int v) else d))"
| "np_where (PyBool c) (PyFloat v) d = Inr (Arr0 (if c then v else d))"
| "np_where (PyBool c) (Series vs) d = Inr (Arr1 (map (\<lambda>(i, v). if c then v else d) vs))"
| "np_where (Mask m) (PyInt v) d = Inr (Arr1 (map (\<lambda>c. if c then Fin (real_of_int v) else d) m))"
| "np_where (Mask m) (PyFloat v) d = Inr (Arr1 (map (\<lambda>c. if c then v else d) m))"
| "np_where (Mask m) (Series vs) d =
     (if length m = length vs then Inr (Arr1 (map2 (\<lambda>c (i, v). if c then v else d) m vs))
      else case (m, vs) of
             ([c], _) \<Rightarrow> Inr (Arr1 (map (\<lambda>(i, v). if c then v else d) vs))
           | (_, [(i, v)]) \<Rightarrow> Inr (Arr1 (map (\<lambda>c. if c then v else d) m))
           | _ \<Rightarrow> Inl ValueError)"

text \<open>
  \<open>np.where(denominator != 0, numerator / denominator, default)\<close>: Python evaluates the three
  arguments before the call, so the quotient is computed, and may raise, whatever the
  condition is.
\<close>

definition safe_divide ::
  "(series \<Rightarrow> series \<Rightarrow> series \<times> series) \<Rightarrow> operand \<Rightarrow> operand \<Rightarrow> fl \<Rightarrow> error + ndarray" where
  "safe_divide align numerator denominator dflt =
     (let cond = ne_zero denominator in
      case truediv align numerator denominator of
        Inl e \<Rightarrow> Inl e
      | Inr q \<Rightarrow> np_where cond q dflt)"

section \<open>Tables\<close>

text \<open>
  A cell of a pandas DataFrame holds a number or a string; cells of other Python types are not
  modelled. A column has a dtype: \<open>Int64\<close> and \<open>Float64\<close> are the two dtypes that
  \<open>select_dtypes(include=['int64', 'float64'])\<close> keeps, \<open>UInt64\<close> stands for the other
  numeric dtypes (pandas gives uint64 to a column of integers of which one is beyond the range
  of int64) and \<open>Object\<close> for every other dtype. A column of a numeric dtype holds numbers
  only, and a column of dtype \<open>Int64\<close> integers from \<open>-2^63\<close> to \<open>2^63 - 1\<close>. A frame is the
  list of its columns (name and dtype, names distinct) and the list of its rows in index
  order; a row gives the cell of every column of the frame, and what it gives for other names
  is never read.
\<close>

datatype cell = Num fl | Str string

datatype dtype = Int64 | Float64 | UInt64 | Object

type_synonym row = "string \<Rightarrow> cell"

record dataframe =
  columns :: "(string \<times> dtype) list"
  rows :: "row list"

definition colnames :: "dataframe \<Rightarrow> string list" where
  "colnames df = map fst (columns df)"

text \<open>The dtype of a column of the frame.\<close>

definition dtype_of :: "dataframe \<Rightarrow> string \<Rightarrow> dtype" where
  "dtype_of df c = (case map_of (columns df) c of Some t \<Rightarrow> t | None \<Rightarrow> Object)"

text \<open>\<open>df[c] = df[c].apply(f)\<close>, and the same with any series computed cell by cell from
  \<open>df[c]\<close>, as far as the cells go; the dtype of the new column is set with \<open>set_dtype\<close>.\<close>

definition map_column :: "string \<Rightarrow> (cell \<Rightarrow> cell) \<Rightarrow> dataframe \<Rightarrow> dataframe" where
  "map_column c f df = df\<lparr>rows := map (\<lambda>r. r(c := f (r c))) (rows df)\<rparr>"

definition set_dtype :: "string \<Rightarrow> dtype \<Rightarrow> dataframe \<Rightarrow> dataframe" where
  "set_dtype c t df = df\<lparr>columns := map (\<lambda>(n, u). if n = c then (n, t) else (n, u)) (columns df)\<rparr>"

text \<open>A function of numbers applied to a cell of a numeric series.\<close>

fun apply_num :: "(fl \<Rightarrow> fl) \<Rightarrow> cell \<Rightarrow> cell" where
  "apply_num f (Num x) = Num (f x)"
| "apply_num f (Str s) = Str s"

section \<open>Unit scaling (lines 54 to 60)\<close>

text \<open>
  \<open>np.abs\<close> on a cell that \<open>apply\<close> hands to the lambda. A cell of an int64 column arrives as
  a Python \<open>int\<close>, which numpy takes as an int64: the absolute value of \<open>-2^63\<close> does not fit
  and wraps around to \<open>-2^63\<close> itself. On a float it is the absolute value.
\<close>

definition np_abs :: "dtype \<Rightarrow> fl \<Rightarrow> fl" where
  "np_abs t x = (if t = Int64 \<and> x = Fin (- (2 ^ 63)) then Fin (- (2 ^ 63)) else fl_abs x)"

text \<open>The lambda of line 59, on a cell of a column of dtype \<open>t\<close>.\<close>

definition to_million :: "dtype \<Rightarrow> fl \<Rightarrow> fl" where
  "to_million t x =
     (if notna x \<and> fl_ge (np_abs t x) (Fin 100000) then fl_div x (Fin 1000000) else x)"

text \<open>Line 57.\<close>

definition numeric_columns :: "dataframe \<Rightarrow> string list" where
  "numeric_columns df = map fst (filter (\<lambda>(c, t). t = Int64 \<or> t = Float64) (columns df))"

text \<open>
  Line 59 for one column. The lambda returns a float for a cell it scales and the cell itself
  otherwise, so the new column is again of dtype int64 when it was so and no cell was scaled,
  and of dtype float64 otherwise.
\<close>

definition scale_column :: "string \<Rightarrow> dataframe \<Rightarrow> dataframe" where
  "scale_column column df =
     (let t = dtype_of df column;
          scaled = map_column column (apply_num (to_million t)) df
      in set_dtype column
           (if t = Int64 \<and> map (\<lambda>r. r column) (rows scaled) = map (\<lambda>r. r column) (rows df)
            then Int64 else Float64)
           scaled)"

text \<open>The function works on a copy of its argument; the loop runs over the list of numeric
  columns computed before it.\<close>

definition convert_to_million :: "dataframe \<Rightarrow> dataframe" where
  "convert_to_million df = fold scale_column (numeric_columns df) df"

section \<open>Loading (lines 107 to 122)\<close>

subsection \<open>The identifying columns\<close>

text \<open>Column of the company name (line 115).\<close>

definition col_company :: string where
  "col_company = [CHR 0xE4, CHR 0xBC, CHR 0x81, CHR 0xE6, CHR 0xA5, CHR 0xAD, CHR 0xE5,
    CHR 0x90, CHR 0x8D]"

text \<open>Column of the fiscal year (line 115).\<close>

definition col_fiscal_year :: string where
  "col_fiscal_year = [CHR 0xE6, CHR 0xB1, CHR 0xBA, CHR 0xE7, CHR 0xAE, CHR 0x97, CHR 0xE5,
    CHR 0xB9, CHR 0xB4, CHR 0xE5, CHR 0xBA, CHR 0xA6]"

text \<open>Column of the fiscal quarter (line 115).\<close>

definition col_fiscal_quarter :: string where
  "col_fiscal_quarter = [CHR 0xE6, CHR 0xB1, CHR 0xBA, CHR 0xE7, CHR 0xAE, CHR 0x97, CHR 0xE5,
    CHR 0x9B, CHR 0x9B, CHR 0xE5, CHR 0x8D, CHR 0x8A, CHR 0xE6, CHR 0x9C, CHR 0x9F]"

definition id_columns :: "string list" where
  "id_columns = [col_company, col_fiscal_year, col_fiscal_quarter]"

text \<open>\<open>df.columns.drop([...], errors='ignore')\<close>.\<close>

definition num_cols :: "dataframe \<Rightarrow> string list" where
  "num_cols df = filter (\<lambda>c. c \<notin> set id_columns) (colnames df)"

text \<open>
  Functions of pandas are parameters of the loader: \<open>str_of\<close>, the text \<open>astype(str)\<close> gives
  for a number in a column of a given dtype, and the two sides of
  \<open>pd.to_numeric(..., errors='coerce')\<close>: \<open>to_numeric\<close>, the value it gives for a text, which
  is NaN where the text does not parse, and \<open>numeric_dtype\<close>, the dtype of the series it
  returns for a column of texts (float64 as soon as a text gives NaN). The text of a string is
  the string itself. \<open>Series.replace(old, new)\<close> replaces the values equal to \<open>old\<close>.
\<close>

definition astype_str :: "(dtype \<Rightarrow> fl \<Rightarrow> string) \<Rightarrow> dtype \<Rightarrow> cell \<Rightarrow> string" where
  "astype_str str_of t c = (case c of Num x \<Rightarrow> str_of t x | Str s \<Rightarrow> s)"

definition series_replace :: "string \<Rightarrow> string \<Rightarrow> string \<Rightarrow> string" where
  "series_replace old new s = (if s = old then new else s)"

text \<open>The argument of \<open>pd.to_numeric\<close> in line 117, on one cell of a column of dtype \<open>t\<close>.\<close>

definition clean_text :: "(dtype \<Rightarrow> fl \<Rightarrow> string) \<Rightarrow> dtype \<Rightarrow> cell \<Rightarrow> string" where
  "clean_text str_of t c =
     series_replace '''' ''0'' (series_replace ''-'' ''0'' (astype_str str_of t c))"

text \<open>Line 117 on one cell.\<close>

definition clean_cell ::
  "(dtype \<Rightarrow> fl \<Rightarrow> string) \<Rightarrow> (string \<Rightarrow> fl) \<Rightarrow> dtype \<Rightarrow> cell \<Rightarrow> cell" where
  "clean_cell str_of to_numeric t c = Num (fillna (Fin 0) (to_numeric (clean_text str_of t c)))"

text \<open>Line 117 for one column; \<open>fillna(0)\<close> keeps the dtype.\<close>

definition clean_column ::
  "(dtype \<Rightarrow> fl \<Rightarrow> string) \<Rightarrow> (string \<Rightarrow> fl) \<Rightarrow> (string list \<Rightarrow> dtype) \<Rightarrow> string \<Rightarrow>
   dataframe \<Rightarrow> dataframe" where
  "clean_column str_of to_numeric numeric_dtype col df =
     (let t = dtype_of df col in
      set_dtype col (numeric_dtype (map (\<lambda>r. clean_text str_of t (r col)) (rows df)))
        (map_column col (clean_cell str_of to_numeric t) df))"

text \<open>The argument is the frame \<open>pd.read_excel\<close> returns, or \<open>None\<close> when the file does not
  exist.\<close>

definition load_financial_data ::
  "(dtype \<Rightarrow> fl \<Rightarrow> string) \<Rightarrow> (string \<Rightarrow> fl) \<Rightarrow> (string list \<Rightarrow> dtype) \<Rightarrow>
   dataframe option \<Rightarrow> dataframe option" where
  "load_financial_data str_of to_numeric numeric_dtype file =
     (case file of
        None \<Rightarrow> None
      | Some df \<Rightarrow>
          Some (convert_to_million
            (fold (clean_column str_of to_numeric numeric_dtype) (num_cols df) df)))"

section \<open>Industry groups (lines 152 to 160)\<close>

text \<open>Group name of line 153 (Aeon group).\<close>

definition grp_aeon :: string where
  "grp_aeon = [CHR 0xE3, CHR 0x82, CHR 0xA4, CHR 0xE3, CHR 0x82, CHR 0xAA, CHR 0xE3, CHR 0x83,
    CHR 0xB3, CHR 0xE3, CHR 0x82, CHR 0xB0, CHR 0xE3, CHR 0x83, CHR 0xAB, CHR 0xE3, CHR 0x83,
    CHR 0xBC, CHR 0xE3, CHR 0x83, CHR 0x97]"

text \<open>Group name of line 154 (drugstores).\<close>

definition grp_drugstore :: string where
  "grp_drugstore = [CHR 0xE3, CHR 0x83, CHR 0x89, CHR 0xE3, CHR 0x83, CHR 0xA9, CHR 0xE3,
    CHR 0x83, CHR 0x83, CHR 0xE3, CHR 0x82, CHR 0xB0, CHR 0xE3, CHR 0x82, CHR 0xB9, CHR 0xE3,
    CHR 0x83, CHR 0x88, CHR 0xE3, CHR 0x82, CHR 0xA2]"

text \<open>Group name of line 155 (home centres).\<close>

definition grp_homecenter :: string where
  "grp_homecenter = [CHR 0xE3, CHR 0x83, CHR 0x9B, CHR 0xE3, CHR 0x83, CHR 0xBC, CHR 0xE3,
    CHR 0x83, CHR 0xA0, CHR 0xE3, CHR 0x82, CHR 0xBB, CHR 0xE3, CHR 0x83, CHR 0xB3, CHR 0xE3,
    CHR 0x82, CHR 0xBF, CHR 0xE3, CHR 0x83, CHR 0xBC]"

text \<open>Group name of line 156 (supermarkets, nationwide).\<close>

definition grp_super_national :: string where
  "grp_super_national = [CHR 0xE3, CHR 0x82, CHR 0xB9, CHR 0xE3, CHR 0x83, CHR 0xBC, CHR 0xE3,
    CHR 0x83, CHR 0x91, CHR 0xE3, CHR 0x83, CHR 0xBC, CHR 0xE3, CHR 0x83, CHR 0x9E, CHR 0xE3,
    CHR 0x83, CHR 0xBC, CHR 0xE3, CHR 0x82, CHR 0xB1, CHR 0xE3, CHR 0x83, CHR 0x83, CHR 0xE3,
    CHR 0x83, CHR 0x88, CHR 0xEF, CHR 0xBC, CHR 0x88, CHR 0xE5, CHR 0x85, CHR 0xA8, CHR 0xE5,
    CHR 0x9B, CHR 0xBD, CHR 0xEF, CHR 0xBC, CHR 0x89]"

text \<open>Group name of line 157 (supermarkets, east Japan).\<close>

definition grp_super_east :: string where
  "grp_super_east = [CHR 0xE3, CHR 0x82, CHR 0xB9, CHR 0xE3, CHR 0x83, CHR 0xBC, CHR 0xE3,
    CHR 0x83, CHR 0x91, CHR 0xE3, CHR 0x83, CHR 0xBC, CHR 0xE3, CHR 0x83, CHR 0x9E, CHR 0xE3,
    CHR 0x83, CHR 0xBC, CHR 0xE3, CHR 0x82, CHR 0xB1, CHR 0xE3, CHR 0x83, CHR 0x83, CHR 0xE3,
    CHR 0x83, CHR 0x88, CHR 0xEF, CHR 0xBC, CHR 0x88, CHR 0xE6, CHR 0x9D, CHR 0xB1, CHR 0xE6,
    CHR 0x97, CHR 0xA5, CHR 0xE6, CHR 0x9C, CHR 0xAC, CHR 0xEF, CHR 0xBC, CHR 0x89]"

text \<open>Group name of line 158 (supermarkets, west Japan).\<close>

definition grp_super_west :: string where
  "grp_super_west = [CHR 0xE3, CHR 0x82, CHR 0xB9, CHR 0xE3, CHR 0x83, CHR 0xBC, CHR 0xE3,
    CHR 0x83, CHR 0x91, CHR 0xE3, CHR 0x83, CHR 0xBC, CHR 0xE3, CHR 0x83, CHR 0x9E, CHR 0xE3,
    CHR 0x83, CHR 0xBC, CHR 0xE3, CHR 0x82, CHR 0xB1, CHR 0xE3, CHR 0x83, CHR 0x83, CHR 0xE3,
    CHR 0x83, CHR 0x88, CHR 0xEF, CHR 0xBC, CHR 0x88, CHR 0xE8, CHR 0xA5, CHR 0xBF, CHR 0xE6,
    CHR 0x97, CHR 0xA5, CHR 0xE6, CHR 0x9C, CHR 0xAC, CHR 0xEF, CHR 0xBC, CHR 0x89]"

text \<open>Group name of line 159 (custom).\<close>

definition grp_custom :: string where
  "grp_custom = [CHR 0xE3, CHR 0x82, CHR 0xAB, CHR 0xE3, CHR 0x82, CHR 0xB9, CHR 0xE3, CHR 0x82,
    CHR 0xBF, CHR 0xE3, CHR 0x83, CHR 0xA0]"

text \<open>Company label (Aeon Hokkaido).\<close>

definition aeon_hokkaido :: string where
  "aeon_hokkaido = [CHR 0xE3, CHR 0x82, CHR 0xA4, CHR 0xE3, CHR 0x82, CHR 0xAA, CHR 0xE3,
    CHR 0x83, CHR 0xB3, CHR 0xE5, CHR 0x8C, CHR 0x97, CHR 0xE6, CHR 0xB5, CHR 0xB7, CHR 0xE9,
    CHR 0x81, CHR 0x93]"

text \<open>Company label (Aeon Kyushu).\<close>

definition aeon_kyushu :: string where
  "aeon_kyushu = [CHR 0xE3, CHR 0x82, CHR 0xA4, CHR 0xE3, CHR 0x82, CHR 0xAA, CHR 0xE3,
    CHR 0x83, CHR 0xB3, CHR 0xE4, CHR 0xB9, CHR 0x9D, CHR 0xE5, CHR 0xB7, CHR 0x9E]"

text \<open>Company label (Tsuruha).\<close>

definition tsuruha :: string where
  "tsuruha = [CHR 0xE3, CHR 0x83, CHR 0x84, CHR 0xE3, CHR 0x83, CHR 0xAB, CHR 0xE3, CHR 0x83,
    CHR 0x8F]"

text \<open>Company label (Matsukiyo Cocokara).\<close>

definition matsukiyo_cocokara :: string where
  "matsukiyo_cocokara = [CHR 0xE3, CHR 0x83, CHR 0x9E, CHR 0xE3, CHR 0x83, CHR 0x84, CHR 0xE3,
    CHR 0x82, CHR 0xAD, CHR 0xE3, CHR 0x83, CHR 0xA8, CHR 0xE3, CHR 0x82, CHR 0xB3, CHR 0xE3,
    CHR 0x82, CHR 0xB3, CHR 0xE3, CHR 0x82, CHR 0xAB, CHR 0xE3, CHR 0x83, CHR 0xA9]"

text \<open>Company label (Cosmos Yakuhin).\<close>

definition cosmos_yakuhin :: string where
  "cosmos_yakuhin = [CHR 0xE3, CHR 0x82, CHR 0xB3, CHR 0xE3, CHR 0x82, CHR 0xB9, CHR 0xE3,
    CHR 0x83, CHR 0xA2, CHR 0xE3, CHR 0x82, CHR 0xB9, CHR 0xE8, CHR 0x96, CHR 0xAC, CHR 0xE5,
    CHR 0x93, CHR 0x81]"

text \<open>Company label (Create SD).\<close>

definition create_sd :: string where
  "create_sd = [CHR 0xE3, CHR 0x82, CHR 0xAF, CHR 0xE3, CHR 0x83, CHR 0xAA, CHR 0xE3, CHR 0x82,
    CHR 0xA8, CHR 0xE3, CHR 0x82, CHR 0xA4, CHR 0xE3, CHR 0x83, CHR 0x88, CHR ''S'', CHR ''D'']"

text \<open>Company label (Sundrug).\<close>

definition sundrug :: string where
  "sundrug = [CHR 0xE3, CHR 0x82, CHR 0xB5, CHR 0xE3, CHR 0x83, CHR 0xB3, CHR 0xE3, CHR 0x83,
    CHR 0x89, CHR 0xE3, CHR 0x83, CHR 0xA9, CHR 0xE3, CHR 0x83, CHR 0x83, CHR 0xE3, CHR 0x82,
    CHR 0xB0]"

text \<open>Company label (Sugi Yakkyoku).\<close>

definition sugi_yakkyoku :: string where
  "sugi_yakkyoku = [CHR 0xE3, CHR 0x82, CHR 0xB9, CHR 0xE3, CHR 0x82, CHR 0xAE, CHR 0xE8,
    CHR 0x96, CHR 0xAC, CHR 0xE5, CHR 0xB1, CHR 0x80]"

text \<open>Company label (Kusuri no Aoki).\<close>

definition kusuri_no_aoki :: string where
  "kusuri_no_aoki = [CHR 0xE3, CHR 0x82, CHR 0xAF, CHR 0xE3, CHR 0x82, CHR 0xB9, CHR 0xE3,
    CHR 0x83, CHR 0xAA, CHR 0xE3, CHR 0x81, CHR 0xAE, CHR 0xE3, CHR 0x82, CHR 0xA2, CHR 0xE3,
    CHR 0x82, CHR 0xAA, CHR 0xE3, CHR 0x82, CHR 0xAD]"

text \<open>Company label (Kohnan).\<close>

definition kohnan :: string where
  "kohnan = [CHR 0xE3, CHR 0x82, CHR 0xB3, CHR 0xE3, CHR 0x83, CHR 0xBC, CHR 0xE3, CHR 0x83,
    CHR 0x8A, CHR 0xE3, CHR 0x83, CHR 0xB3]"

text \<open>Company label (Komeri).\<close>

definition komeri :: string where
  "komeri = [CHR 0xE3, CHR 0x82, CHR 0xB3, CHR 0xE3, CHR 0x83, CHR 0xA1, CHR 0xE3, CHR 0x83,
    CHR 0xAA]"

text \<open>Company label (Arclands).\<close>

definition arclands :: string where
  "arclands = [CHR 0xE3, CHR 0x82, CHR 0xA2, CHR 0xE3, CHR 0x83, CHR 0xBC, CHR 0xE3, CHR 0x82,
    CHR 0xAF, CHR 0xE3, CHR 0x83, CHR 0xA9, CHR 0xE3, CHR 0x83, CHR 0xB3, CHR 0xE3, CHR 0x82,
    CHR 0xBA]"

text \<open>Company label (Joyful Honda).\<close>

definition joyful_honda :: string where
  "joyful_honda = [CHR 0xE3, CHR 0x82, CHR 0xB8, CHR 0xE3, CHR 0x83, CHR 0xA7, CHR 0xE3,
    CHR 0x82, CHR 0xA4, CHR 0xE3, CHR 0x83, CHR 0x95, CHR 0xE3, CHR 0x83, CHR 0xAB, CHR 0xE6,
    CHR 0x9C, CHR 0xAC, CHR 0xE7, CHR 0x94, CHR 0xB0]"

text \<open>Company label (Trial).\<close>

definition trial :: string where
  "trial = [CHR 0xE3, CHR 0x83, CHR 0x88, CHR 0xE3, CHR 0x83, CHR 0xA9, CHR 0xE3, CHR 0x82,
    CHR 0xA4, CHR 0xE3, CHR 0x82, CHR 0xA2, CHR 0xE3, CHR 0x83, CHR 0xAB]"

text \<open>Company label (Arcs).\<close>

definition arcs :: string where
  "arcs = [CHR 0xE3, CHR 0x82, CHR 0xA2, CHR 0xE3, CHR 0x83, CHR 0xBC, CHR 0xE3, CHR 0x82,
    CHR 0xAF, CHR 0xE3, CHR 0x82, CHR 0xB9]"

text \<open>Company label (Yaoko).\<close>

definition yaoko :: string where
  "yaoko = [CHR 0xE3, CHR 0x83, CHR 0xA4, CHR 0xE3, CHR 0x82, CHR 0xAA, CHR 0xE3, CHR 0x82,
    CHR 0xB3, CHR 0xE3, CHR 0x83, CHR 0xBC]"

text \<open>Company label (Life).\<close>

definition life :: string where
  "life = [CHR 0xE3, CHR 0x83, CHR 0xA9, CHR 0xE3, CHR 0x82, CHR 0xA4, CHR 0xE3, CHR 0x83,
    CHR 0x95]"

text \<open>Company label (Belc).\<close>

definition belc :: string where
  "belc = [CHR 0xE3, CHR 0x83, CHR 0x99, CHR 0xE3, CHR 0x83, CHR 0xAB, CHR 0xE3, CHR 0x82,
    CHR 0xAF]"

text \<open>Company label (Heiwado).\<close>

definition heiwado :: string where
  "heiwado = [CHR 0xE5, CHR 0xB9, CHR 0xB3, CHR 0xE5, CHR 0x92, CHR 0x8C, CHR 0xE5, CHR 0xA0,
    CHR 0x82]"

text \<open>Company label (Valor).\<close>

definition valor :: string where
  "valor = [CHR 0xE3, CHR 0x83, CHR 0x90, CHR 0xE3, CHR 0x83, CHR 0xAD, CHR 0xE3, CHR 0x83,
    CHR 0xBC]"

text \<open>Company label (Izumi).\<close>

definition izumi :: string where
  "izumi = [CHR 0xE3, CHR 0x82, CHR 0xA4, CHR 0xE3, CHR 0x82, CHR 0xBA, CHR 0xE3, CHR 0x83,
    CHR 0x9F]"

text \<open>Company label (Halows).\<close>

definition halows :: string where
  "halows = [CHR 0xE3, CHR 0x83, CHR 0x8F, CHR 0xE3, CHR 0x83, CHR 0xAD, CHR 0xE3, CHR 0x83,
    CHR 0xBC, CHR 0xE3, CHR 0x82, CHR 0xBA]"


definition INDUSTRY_GROUPS :: "(string \<times> string list) list" where
  "INDUSTRY_GROUPS =
     [(grp_aeon, [aeon_hokkaido, aeon_kyushu, maxvalu_tokai, fuji_retailing, ''U.S.M.H'', tsuruha]),
      (grp_drugstore, [tsuruha, matsukiyo_cocokara, cosmos_yakuhin, create_sd, sundrug,
         sugi_yakkyoku, kusuri_no_aoki]),
      (grp_homecenter, [''DCMHD'', kohnan, komeri, arclands, joyful_honda]),
      (grp_super_national, [''PPIH'', trial]),
      (grp_super_east, [aeon_hokkaido, arcs, yaoko, life, belc, ''U.S.M.H'']),
      (grp_super_west, [heiwado, valor, izumi, life, halows, maxvalu_tokai, fuji_retailing]),
      (grp_custom, [])]"

section \<open>Selection (lines 192 to 260)\<close>

text \<open>\<open>df[c]\<close>: the cells of a column, or KeyError when the frame has no such column.\<close>

definition getcol :: "dataframe \<Rightarrow> string \<Rightarrow> error + cell list" where
  "getcol df c = (if c \<in> set (colnames df) then Inr (map (\<lambda>r. r c) (rows df)) else Inl KeyError)"

fun is_str :: "cell \<Rightarrow> bool" where
  "is_str (Str s) = True"
| "is_str (Num x) = False"

fun the_str :: "cell \<Rightarrow> string" where
  "the_str (Str s) = s"
| "the_str (Num x) = []"

text \<open>
  \<open>sorted(series.unique().tolist())\<close> on a column of names. The order in which \<open>unique\<close>
  lists the values does not matter under \<open>sorted\<close>. Python cannot compare a string with a
  float, so a column that holds a number (an empty cell is NaN) makes \<open>sorted\<close> raise; the
  one list it would still accept, a single NaN, is rejected here as well, since the names are
  strings in all that follows.
\<close>

definition sorted_unique :: "cell list \<Rightarrow> error + string list" where
  "sorted_unique cs =
     (if list_all is_str cs then Inr (sort (remdups (map the_str cs))) else Inl TypeError)"

text \<open>Line 192.\<close>

definition available_data_names :: "dataframe \<Rightarrow> error + string list" where
  "available_data_names df_raw =
     (case getcol df_raw col_company of Inl e \<Rightarrow> Inl e | Inr cs \<Rightarrow> sorted_unique cs)"

text \<open>Line 194.\<close>

definition available_display_names :: "string list \<Rightarrow> string list" where
  "available_display_names data_names = sort (map get_display_name data_names)"

text \<open>
  Lines 203 to 224: the \<open>default\<close> argument of the multiselect, from the chosen group and the
  list of line 192. The selectbox offers the keys of \<open>INDUSTRY_GROUPS\<close> only; for any other
  name the subscript raises KeyError.
\<close>

definition default_display_names :: "string \<Rightarrow> string list \<Rightarrow> error + string list" where
  "default_display_names industry_choice data_names =
     (if industry_choice = grp_custom then Inr (take 5 (available_display_names data_names))
      else case dict_lookup INDUSTRY_GROUPS industry_choice of
             None \<Rightarrow> Inl KeyError
           | Some preset_display_names \<Rightarrow>
               Inr (take 7 (filter (\<lambda>name. get_data_name name \<in> set data_names)
                               preset_display_names)))"

text \<open>\<open>series.isin(values)\<close> for a list of strings, and \<open>series == year\<close> for a Python int,
  on one cell.\<close>

fun isin :: "string list \<Rightarrow> cell \<Rightarrow> bool" where
  "isin vals (Str s) = (s \<in> set vals)"
| "isin vals (Num x) = False"

fun eq_int :: "int \<Rightarrow> cell \<Rightarrow> bool" where
  "eq_int y (Num (Fin x)) = (x = real_of_int y)"
| "eq_int y c = False"

text \<open>\<open>df[mask]\<close>: the rows where the mask holds, in the order of the frame.\<close>

definition bool_index :: "dataframe \<Rightarrow> bool list \<Rightarrow> dataframe" where
  "bool_index df msk = df\<lparr>rows := map snd (filter fst (zip msk (rows df)))\<rparr>"

text \<open>Lines 246 and 247.\<close>

definition current_period :: "dataframe \<Rightarrow> string list \<Rightarrow> int \<Rightarrow> error + dataframe" where
  "current_period df_raw selected_companies selected_year =
     (case getcol df_raw col_company of
        Inl e \<Rightarrow> Inl e
      | Inr companies \<Rightarrow>
          (case getcol df_raw col_fiscal_year of
             Inl e \<Rightarrow> Inl e
           | Inr years \<Rightarrow>
               Inr (bool_index df_raw
                 (map2 (\<and>) (map (isin selected_companies) companies)
                    (map (eq_int selected_year) years)))))"

text \<open>\<open>series >= n\<close> and \<open>series <= n\<close> for a Python int, on one cell.\<close>

fun cell_num :: "cell \<Rightarrow> fl" where
  "cell_num (Num x) = x"
| "cell_num (Str s) = NaN"

definition ge_int :: "int \<Rightarrow> cell \<Rightarrow> bool" where
  "ge_int n c = (is_str c = False \<and> fl_ge (cell_num c) (Fin (real_of_int n)))"

definition le_int :: "int \<Rightarrow> cell \<Rightarrow> bool" where
  "le_int n c = (is_str c = False \<and> fl_ge (Fin (real_of_int n)) (cell_num c))"

text \<open>Lines 251 to 255.\<close>

definition trend_period :: "dataframe \<Rightarrow> string list \<Rightarrow> int \<Rightarrow> error + dataframe" where
  "trend_period df_raw selected_companies selected_year =
     (let start_year = selected_year - 4 in
      case getcol df_raw col_company of
        Inl e \<Rightarrow> Inl e
      | Inr companies \<Rightarrow>
          (case getcol df_raw col_fiscal_year of
             Inl e \<Rightarrow> Inl e
           | Inr years \<Rightarrow>
               Inr (bool_index df_raw
                 (map2 (\<and>)
                    (map2 (\<and>) (map (isin selected_companies) companies)
                       (map (ge_int start_year) years))
                    (map (le_int selected_year) years)))))"

section \<open>Revenue growth index (lines 296 to 308, 331 and 332)\<close>

text \<open>Column of the revenue (net sales).\<close>

definition col_sales :: string where
  "col_sales = [CHR 0xE5, CHR 0xA3, CHR 0xB2, CHR 0xE4, CHR 0xB8, CHR 0x8A, CHR 0xE9, CHR 0xAB,
    CHR 0x98]"

text \<open>Column of the revenue growth index (lines 304 to 308).\<close>

definition col_sales_growth :: string where
  "col_sales_growth = [CHR 0xE5, CHR 0xA3, CHR 0xB2, CHR 0xE4, CHR 0xB8, CHR 0x8A, CHR 0xE9,
    CHR 0xAB, CHR 0x98, CHR 0xE6, CHR 0x88, CHR 0x90, CHR 0xE9, CHR 0x95, CHR 0xB7, CHR 0xE7,
    CHR 0x8E, CHR 0x87]"

text \<open>\<open>series == company\<close> for a string, on one cell.\<close>

definition eq_str :: "string \<Rightarrow> cell \<Rightarrow> bool" where
  "eq_str s c = (c = Str s)"

text \<open>
  \<open>df.loc[mask, c] = v\<close> for a scalar \<open>v\<close>, as a function of the frame: the cells of column
  \<open>c\<close> in the rows of the mask become \<open>v\<close>. When the frame has no column \<open>c\<close>, pandas
  appends it and the rows outside the mask hold NaN.
\<close>

definition loc_set :: "bool list \<Rightarrow> string \<Rightarrow> cell \<Rightarrow> dataframe \<Rightarrow> dataframe" where
  "loc_set msk c v df =
     (if c \<in> set (colnames df)
      then df\<lparr>rows := map (\<lambda>(b, r). if b then r(c := v) else r) (zip msk (rows df))\<rparr>
      else df\<lparr>columns := columns df @ [(c, Float64)],
              rows := map (\<lambda>(b, r). r(c := (if b then v else Num NaN))) (zip msk (rows df))\<rparr>)"

text \<open>Lines 304, 306 and 308: the assignment to the rows of one company.\<close>

definition assign_growth :: "string \<Rightarrow> fl \<Rightarrow> dataframe \<Rightarrow> error + dataframe" where
  "assign_growth company v df_growth =
     (case getcol df_growth col_company of
        Inl e \<Rightarrow> Inl e
      | Inr own \<Rightarrow> Inr (loc_set (map (eq_str company) own) col_sales_growth (Num v) df_growth))"

text \<open>
  The body of the loop of line 297 for one company, on the frame \<open>df_growth\<close>. A subscript
  with an absent column raises KeyError; comparing or dividing a text raises TypeError.
\<close>

definition growth_step :: "dataframe \<Rightarrow> int \<Rightarrow> string \<Rightarrow> dataframe \<Rightarrow> error + dataframe" where
  "growth_step df_raw selected_year company df_growth =
     (case getcol df_raw col_company of
        Inl e \<Rightarrow> Inl e
      | Inr companies \<Rightarrow>
     (case getcol df_raw col_fiscal_year of
        Inl e \<Rightarrow> Inl e
      | Inr years \<Rightarrow>
     (let base_data = bool_index df_raw
            (map2 (\<and>) (map (eq_str company) companies) (map (eq_int (selected_year - 5)) years))
      in if rows base_data \<noteq> [] then
           (case getcol base_data col_sales of
              Inl e \<Rightarrow> Inl e
            | Inr base_column \<Rightarrow>
           (case hd base_column of
              Str s \<Rightarrow> Inl TypeError
            | Num base_sales \<Rightarrow>
                if fl_gt base_sales (Fin 0) then
                  (case getcol df_growth col_company of
                     Inl e \<Rightarrow> Inl e
                   | Inr own \<Rightarrow>
                  (case getcol (bool_index df_growth (map (eq_str company) own)) col_sales of
                     Inl e \<Rightarrow> Inl e
                   | Inr current_sales \<Rightarrow>
                       if length current_sales > 0 then
                         (case hd current_sales of
                            Str s \<Rightarrow> Inl TypeError
                          | Num current \<Rightarrow>
                              assign_growth company (fl_div current base_sales) df_growth)
                       else Inr df_growth))
                else assign_growth company (Fin 1) df_growth))
         else assign_growth company (Fin 1) df_growth)))"

text \<open>The loop of line 297 over the selected companies; it stops at the first exception.\<close>

fun growth_loop :: "dataframe \<Rightarrow> int \<Rightarrow> string list \<Rightarrow> dataframe \<Rightarrow> error + dataframe" where
  "growth_loop df_raw selected_year [] df_growth = Inr df_growth"
| "growth_loop df_raw selected_year (company # companies) df_growth =
     (case growth_step df_raw selected_year company df_growth of
        Inl e \<Rightarrow> Inl e
      | Inr df_growth' \<Rightarrow> growth_loop df_raw selected_year companies df_growth')"

text \<open>Lines 331 and 332: the plotted values, when the column exists.\<close>

definition growth_values :: "dataframe \<Rightarrow> fl list option" where
  "growth_values df_growth =
     (if col_sales_growth \<in> set (colnames df_growth)
      then Some (map (\<lambda>r. fillna (Fin 1) (cell_num (r col_sales_growth))) (rows df_growth))
      else None)"

text \<open>
  The growth index of a company as the specification words it, from the current revenue of
  the company: the base row is the row of the company in the fiscal year five years before
  the selected one (the first one, should there be several).
\<close>

definition spec_growth_index :: "dataframe \<Rightarrow> int \<Rightarrow> string \<Rightarrow> fl \<Rightarrow> fl" where
  "spec_growth_index df_raw selected_year company current_revenue =
     (case filter (\<lambda>r. r col_company = Str company \<and>
                       r col_fiscal_year = Num (Fin (real_of_int (selected_year - 5))))
             (rows df_raw) of
        [] \<Rightarrow> Fin 1
      | base # others \<Rightarrow>
          if fl_gt (cell_num (base col_sales)) (Fin 0)
          then fl_div current_revenue (cell_num (base col_sales))
          else Fin 1)"

section \<open>Metric tables and KPI series\<close>

subsection \<open>Column names\<close>

text \<open>Column of the display label (line 263).\<close>

definition col_company_display :: string where
  "col_company_display = [CHR 0xE4, CHR 0xBC, CHR 0x81, CHR 0xE6, CHR 0xA5, CHR 0xAD, CHR 0xE5,
    CHR 0x90, CHR 0x8D, CHR ''_'', CHR 0xE8, CHR 0xA1, CHR 0xA8, CHR 0xE7, CHR 0xA4, CHR 0xBA]"

text \<open>Column of the operating revenue.\<close>

definition col_operating_revenue :: string where
  "col_operating_revenue = [CHR 0xE5, CHR 0x96, CHR 0xB6, CHR 0xE6, CHR 0xA5, CHR 0xAD,
    CHR 0xE5, CHR 0x8F, CHR 0x8E, CHR 0xE5, CHR 0x85, CHR 0xA5]"

text \<open>Column of the gross margin.\<close>

definition col_gross_margin :: string where
  "col_gross_margin = [CHR 0xE5, CHR 0xA3, CHR 0xB2, CHR 0xE4, CHR 0xB8, CHR 0x8A, CHR 0xE7,
    CHR 0xB7, CHR 0x8F, CHR 0xE5, CHR 0x88, CHR 0xA9, CHR 0xE7, CHR 0x9B, CHR 0x8A, CHR 0xE7,
    CHR 0x8E, CHR 0x87]"

text \<open>Column of the selling, general and administrative expenses.\<close>

definition col_sga :: string where
  "col_sga = [CHR 0xE8, CHR 0xB2, CHR 0xA9, CHR 0xE7, CHR 0xAE, CHR 0xA1, CHR 0xE8, CHR 0xB2,
    CHR 0xBB]"

text \<open>Column of the operating profit.\<close>

definition col_operating_profit :: string where
  "col_operating_profit = [CHR 0xE5, CHR 0x96, CHR 0xB6, CHR 0xE6, CHR 0xA5, CHR 0xAD, CHR 0xE5,
    CHR 0x88, CHR 0xA9, CHR 0xE7, CHR 0x9B, CHR 0x8A]"

text \<open>Column of the operating margin.\<close>

definition col_operating_margin :: string where
  "col_operating_margin = [CHR 0xE5, CHR 0x96, CHR 0xB6, CHR 0xE6, CHR 0xA5, CHR 0xAD, CHR 0xE5,
    CHR 0x88, CHR 0xA9, CHR 0xE7, CHR 0x9B, CHR 0x8A, CHR 0xE7, CHR 0x8E, CHR 0x87]"



text \<open>Column of the forecast PER.\<close>

definition col_per :: string where
  "col_per = [CHR ''P'', CHR ''E'', CHR ''R'', CHR 0xEF, CHR 0xBC, CHR 0x88, CHR 0xE4, CHR 0xBC,
    CHR 0x9A, CHR 0xE4, CHR 0xBA, CHR 0x88, CHR 0xEF, CHR 0xBC, CHR 0x89]"

text \<open>Column of the dividend yield.\<close>

definition col_dividend_yield :: string where
  "col_dividend_yield = [CHR 0xE9, CHR 0x85, CHR 0x8D, CHR 0xE5, CHR 0xBD, CHR 0x93, CHR 0xE5,
    CHR 0x88, CHR 0xA9, CHR 0xE5, CHR 0x9B, CHR 0x9E, CHR 0xE3, CHR 0x82, CHR 0x8A, CHR 0xEF,
    CHR 0xBC, CHR 0x88, CHR 0xE5, CHR 0xAE, CHR 0x9F, CHR 0xE7, CHR 0xB8, CHR 0xBE, CHR 0xEF,
    CHR 0xBC, CHR 0x89]"

text \<open>Column of the market capitalisation.\<close>

definition col_market_cap :: string where
  "col_market_cap = [CHR 0xE6, CHR 0x99, CHR 0x82, CHR 0xE4, CHR 0xBE, CHR 0xA1, CHR 0xE7,
    CHR 0xB7, CHR 0x8F, CHR 0xE9, CHR 0xA1, CHR 0x8D]"




















text \<open>Column of the cost-of-goods ratio (line 628).\<close>

definition col_cost_ratio :: string where
  "col_cost_ratio = [CHR 0xE5, CHR 0xA3, CHR 0xB2, CHR 0xE4, CHR 0xB8, CHR 0x8A, CHR 0xE5,
    CHR 0x8E, CHR 0x9F, CHR 0xE4, CHR 0xBE, CHR 0xA1, CHR 0xE7, CHR 0x8E, CHR 0x87]"

text \<open>Column of the SG and A ratio (line 629).\<close>

definition col_sga_ratio :: string where
  "col_sga_ratio = [CHR 0xE8, CHR 0xB2, CHR 0xA9, CHR 0xE7, CHR 0xAE, CHR 0xA1, CHR 0xE8,
    CHR 0xB2, CHR 0xBB, CHR 0xE7, CHR 0x8E, CHR 0x87]"

subsection \<open>Requested columns (lines 355, 503, 515, 536, 715, 788 and 844)\<close>

definition display_cols :: "string list" where
  "display_cols = [col_company_display, col_sales, col_operating_revenue, col_gross_margin,
     col_sga, col_operating_profit, col_operating_margin]"







subsection \<open>Tables\<close>

text \<open>\<open>df[cols]\<close> for a list of names: KeyError when a name is not a column of the frame.\<close>

definition select_columns :: "dataframe \<Rightarrow> string list \<Rightarrow> error + dataframe" where
  "select_columns df cols =
     (if list_all (\<lambda>c. c \<in> set (colnames df)) cols
      then Inr (df\<lparr>columns := map (\<lambda>c. (c, dtype_of df c)) cols\<rparr>)
      else Inl KeyError)"


text \<open>\<open>df.rename(columns={old: new})\<close>; a name that is not a column is ignored.\<close>

definition rename_column :: "string \<Rightarrow> string \<Rightarrow> dataframe \<Rightarrow> dataframe" where
  "rename_column old new df =
     (if old \<in> set (colnames df)
      then \<lparr>columns = map (\<lambda>(n, t). (if n = old then new else n, t)) (columns df),
            rows = map (\<lambda>r. r(new := r old)) (rows df)\<rparr>
      else df)"

text \<open>
  A frame after \<open>set_index(c)\<close>: the cells of column \<open>c\<close> label the rows and the other
  columns remain. KeyError when the frame has no column \<open>c\<close>.
\<close>

record display =
  labels :: "cell list"
  body :: dataframe

definition set_index :: "string \<Rightarrow> dataframe \<Rightarrow> error + display" where
  "set_index c df =
     (if c \<in> set (colnames df)
      then Inr \<lparr>labels = map (\<lambda>r. r c) (rows df),
                body = df\<lparr>columns := filter (\<lambda>(n, t). n \<noteq> c) (columns df)\<rparr>\<rparr>
      else Inl KeyError)"

text \<open>\<open>df[cols].copy().rename(columns={display: company}).set_index(company)\<close>, where
  \<open>display\<close> is the name of the column of display labels and \<open>company\<close> that of the companies.\<close>

definition indexed :: "dataframe \<Rightarrow> string list \<Rightarrow> error + display" where
  "indexed df cols =
     (case select_columns df cols of
        Inl e \<Rightarrow> Inl e
      | Inr t \<Rightarrow> set_index col_company (rename_column col_company_display col_company t))"

text \<open>Lines 355 to 357: the table of the revenue tab, whose columns are not filtered.\<close>

definition display_df :: "dataframe \<Rightarrow> error + display" where
  "display_df df_compare = indexed df_compare display_cols"







subsection \<open>KPI series (lines 376 to 379, 385 to 388 and 445 to 448)\<close>

text \<open>\<open>series.fillna(default)\<close> on one cell.\<close>

fun fill_cell :: "fl \<Rightarrow> cell \<Rightarrow> cell" where
  "fill_cell dflt (Num x) = Num (fillna dflt x)"
| "fill_cell dflt (Str s) = Str s"

definition safe_get_values :: "dataframe \<Rightarrow> string \<Rightarrow> fl \<Rightarrow> cell list" where
  "safe_get_values df col_name dflt =
     (if col_name \<in> set (colnames df)
      then map (\<lambda>r. fill_cell dflt (r col_name)) (rows df)
      else replicate (length (rows df)) (Num dflt))"


definition stock_values :: "dataframe \<Rightarrow> (string \<times> cell list) list" where
  "stock_values df_compare =
     [(col_per, safe_get_values df_compare col_per (Fin 0)),
      (''PBR'', safe_get_values df_compare ''PBR'' (Fin 0)),
      (col_dividend_yield, safe_get_values df_compare col_dividend_yield (Fin 0)),
      (col_market_cap, safe_get_values df_compare col_market_cap (Fin 0))]"

section \<open>Example data\<close>

text \<open>A row from the list of its cells; a name that is not listed gives NaN.\<close>

definition mk_row :: "(string \<times> cell) list \<Rightarrow> row" where
  "mk_row kvs = (\<lambda>c. case map_of kvs c of Some v \<Rightarrow> v | None \<Rightarrow> Num NaN)"

text \<open>A frame with one numeric column that holds a value above and a value below the
  threshold of the unit scaling.\<close>

definition ex_units :: dataframe where
  "ex_units =
     \<lparr>columns = [(col_company, Object), (col_sales, Int64)],
      rows = [mk_row [(col_company, Str ''A''), (col_sales, Num (Fin 250000))],
              mk_row [(col_company, Str ''B''), (col_sales, Num (Fin 99999))]]\<rparr>"

text \<open>
  A sheet as \<open>pd.read_excel\<close> returns it: the revenue column holds texts, among them the
  hyphen and the text \<open>inf\<close>, and the ROE column holds numbers and an empty cell (NaN).
  \<open>ex_str_of\<close> and \<open>ex_to_numeric\<close> are what \<open>astype(str)\<close> and \<open>pd.to_numeric\<close> do on the
  values of this sheet: pandas parses the text \<open>inf\<close> to the float infinity.
\<close>

definition ex_sheet :: dataframe where
  "ex_sheet =
     \<lparr>columns = [(col_company, Object), (col_fiscal_year, Int64), (col_sales, Object),
                 (''ROE'', Float64)],
      rows = [mk_row [(col_company, Str ''A''), (col_fiscal_year, Num (Fin 2020)),
                      (col_sales, Str ''-''), (''ROE'', Num (Fin 8.5))],
              mk_row [(col_company, Str ''B''), (col_fiscal_year, Num (Fin 2020)),
                      (col_sales, Str ''250000''), (''ROE'', Num NaN)],
              mk_row [(col_company, Str ''C''), (col_fiscal_year, Num (Fin 2020)),
                      (col_sales, Str ''inf''), (''ROE'', Num (Fin 3))]]\<rparr>"

definition ex_str_of :: "dtype \<Rightarrow> fl \<Rightarrow> string" where
  "ex_str_of t x = (if x = Fin 8.5 then ''8.5'' else if x = Fin 3 then ''3.0'' else ''nan'')"

definition ex_to_numeric :: "string \<Rightarrow> fl" where
  "ex_to_numeric s =
     (if s = ''0'' then Fin 0 else if s = ''250000'' then Fin 250000
      else if s = ''8.5'' then Fin 8.5 else if s = ''3.0'' then Fin 3
      else if s = ''inf'' then PInf else NaN)"

text \<open>The dtype \<open>pd.to_numeric\<close> gives on the texts of this sheet: int64 for a column of
  integers, float64 otherwise.\<close>

definition ex_numeric_dtype :: "string list \<Rightarrow> dtype" where
  "ex_numeric_dtype texts =
     (if list_all (\<lambda>s. s = ''0'' \<or> s = ''250000'') texts then Int64 else Float64)"

text \<open>A frame whose revenue column is of dtype uint64, as \<open>pd.to_numeric\<close> returns it for a
  column that holds an integer beyond the range of int64.\<close>

definition ex_unsigned :: dataframe where
  "ex_unsigned =
     \<lparr>columns = [(col_company, Object), (col_sales, UInt64)],
      rows = [mk_row [(col_company, Str ''A''), (col_sales, Num (Fin 250000))],
              mk_row [(col_company, Str ''B''), (col_sales, Num (Fin (2 ^ 63 + 5)))]]\<rparr>"

text \<open>
  A loaded table: companies A, B and C in the fiscal years 2015, 2019 and 2020. B has no row
  for 2015 and the revenue of C in 2015 is 0.
\<close>

definition ex_record :: "string \<Rightarrow> real \<Rightarrow> real \<Rightarrow> row" where
  "ex_record company year sales =
     mk_row [(col_company, Str company), (col_fiscal_year, Num (Fin year)),
             (col_sales, Num (Fin sales))]"

definition ex_table :: dataframe where
  "ex_table =
     \<lparr>columns = [(col_company, Object), (col_fiscal_year, Int64), (col_sales, Float64)],
      rows = [ex_record ''A'' 2015 100, ex_record ''C'' 2015 0,
              ex_record ''A'' 2019 140, ex_record ''B'' 2019 70, ex_record ''C'' 2019 50,
              ex_record ''A'' 2020 150, ex_record ''B'' 2020 80, ex_record ''C'' 2020 60]\<rparr>"

text \<open>The rows of \<open>ex_table\<close> for the fiscal year 2020, the current-period subset when A, B and
  C are selected.\<close>

definition ex_current :: dataframe where
  "ex_current =
     ex_table\<lparr>rows := [ex_record ''A'' 2020 150, ex_record ''B'' 2020 80, ex_record ''C'' 2020 60]\<rparr>"


text \<open>A table whose companies are partly members of the first group; Tsuruha occurs twice.\<close>

definition ex_companies :: dataframe where
  "ex_companies =
     \<lparr>columns = [(col_company, Object)],
      rows = [mk_row [(col_company, Str tsuruha)], mk_row [(col_company, Str fuji)],
              mk_row [(col_company, Str ''USMH'')], mk_row [(col_company, Str tsuruha)],
              mk_row [(col_company, Str ''PPIH'')]]\<rparr>"

section \<open>Properties\<close>

subsection \<open>Helper lemmas\<close>

lemma dict_get_outside:
  "k \<notin> fst ` set items \<Longrightarrow> dict_get items k d = d"
proof -
  assume "k \<notin> fst ` set items"
  then have "k \<notin> fst ` set (rev items)" by simp
  then have "map_of (rev items) k = None" by (simp only: map_of_eq_None_iff [symmetric])
  then show ?thesis by (simp add: dict_get_def dict_lookup_def)
qed

subsection \<open>Name mapper\<close>

text \<open>
  C5: for every display label \<open>x\<close> of the fixed mapping, converting to the data label and
  back gives \<open>x\<close> again; \<open>get_data_name\<close> is the identity on every label that is not a
  display label of the mapping, and \<open>get_display_name\<close> is the identity on every label that
  is not a data label of the mapping. In particular both are the identity on a label that does
  not occur in the mapping at all.
\<close>

theorem name_mapping_round_trip:
  "(\<forall>x \<in> fst ` set COMPANY_NAME_MAPPING. get_display_name (get_data_name x) = x) \<and>
   (\<forall>x. x \<notin> fst ` set COMPANY_NAME_MAPPING \<longrightarrow> get_data_name x = x) \<and>
   (\<forall>x. x \<notin> snd ` set COMPANY_NAME_MAPPING \<longrightarrow> get_display_name x = x)"
proof (intro conjI allI impI ballI)
  fix x assume "x \<in> fst ` set COMPANY_NAME_MAPPING"
  then have "x = fuji_retailing \<or> x = ''U.S.M.H'' \<or> x = maxvalu_tokai"
    by (auto simp: COMPANY_NAME_MAPPING_def)
  then show "get_display_name (get_data_name x) = x"
    by (auto simp: get_display_name_def get_data_name_def dict_get_def dict_lookup_def
        COMPANY_NAME_MAPPING_def COMPANY_NAME_REVERSE_MAPPING_def
        fuji_retailing_def fuji_def maxvalu_tokai_def maxvaluu_tokai_def)
next
  fix x assume "x \<notin> fst ` set COMPANY_NAME_MAPPING"
  then show "get_data_name x = x"
    unfolding get_data_name_def by (rule dict_get_outside)
next
  fix x assume "x \<notin> snd ` set COMPANY_NAME_MAPPING"
  then have "x \<notin> fst ` set COMPANY_NAME_REVERSE_MAPPING"
    by (force simp: COMPANY_NAME_REVERSE_MAPPING_def)
  then show "get_display_name x = x"
    unfolding get_display_name_def by (rule dict_get_outside)
qed

theorem name_mapping_round_trip_witness:
  "fuji_retailing \<in> fst ` set COMPANY_NAME_MAPPING \<and>
   get_display_name (get_data_name fuji_retailing) = fuji_retailing \<and>
   ''PPIH'' \<notin> fst ` set COMPANY_NAME_MAPPING \<and> get_data_name ''PPIH'' = ''PPIH'' \<and>
   ''PPIH'' \<notin> snd ` set COMPANY_NAME_MAPPING \<and> get_display_name ''PPIH'' = ''PPIH''"
proof -
  have a: "fuji_retailing \<in> fst ` set COMPANY_NAME_MAPPING"
    by (simp add: COMPANY_NAME_MAPPING_def)
  have b: "''PPIH'' \<notin> fst ` set COMPANY_NAME_MAPPING"
    by (simp add: COMPANY_NAME_MAPPING_def fuji_retailing_def maxvalu_tokai_def)
  have c: "''PPIH'' \<notin> snd ` set COMPANY_NAME_MAPPING"
    by (simp add: COMPANY_NAME_MAPPING_def fuji_def maxvaluu_tokai_def)
  from name_mapping_round_trip a b c show ?thesis by blast
qed

subsection \<open>Guarded division\<close>

lemma fl_ne_zero: "fl_ne x (Fin 0) = (x \<noteq> Fin 0)"
  by (cases x) (simp_all add: fl_ne_def)

lemma map2_where_div:
  "map fst ns = map fst ds \<Longrightarrow>
   map2 (\<lambda>c (i, v). if c then v else d) (map (\<lambda>(i, y). fl_ne y (Fin 0)) ds)
     (map2 (\<lambda>(i, x) (j, y). (i, fl_div x y)) ns ds) =
   map2 (\<lambda>(i, n) (j, x). if x = Fin 0 then d else fl_div n x) ns ds"
proof (induction ns arbitrary: ds)
  case Nil
  then show ?case by simp
next
  case (Cons n ns)
  then obtain e es where "ds = e # es" by (cases ds) auto
  with Cons show ?case by (cases n; cases e) (simp add: fl_ne_zero)
qed

text \<open>
  The guard works on Series, as at every call site: two Series with one index give, position
  by position, the default where the denominator is 0 and the quotient elsewhere; a Series
  divided by the number 0 gives the default everywhere.
\<close>

lemma safe_divide_series:
  assumes "map fst ns = map fst ds"
  shows "safe_divide align (Series ns) (Series ds) d =
     Inr (Arr1 (map2 (\<lambda>(i, n) (j, x). if x = Fin 0 then d else fl_div n x) ns ds))"
proof -
  from assms have len: "length ns = length ds"
    by (rule map_eq_imp_length_eq)
  have q: "truediv align (Series ns) (Series ds) =
      Inr (Series (map2 (\<lambda>(i, x) (j, y). (i, fl_div x y)) ns ds))"
    using assms by simp
  have "np_where (ne_zero (Series ds)) (Series (map2 (\<lambda>(i, x) (j, y). (i, fl_div x y)) ns ds)) d =
      Inr (Arr1 (map2 (\<lambda>c (i, v). if c then v else d) (map (\<lambda>(i, y). fl_ne y (Fin 0)) ds)
        (map2 (\<lambda>(i, x) (j, y). (i, fl_div x y)) ns ds)))"
    using len by simp
  with q show ?thesis
    by (simp only: safe_divide_def Let_def sum.case map2_where_div [OF assms])
qed

lemma safe_divide_series_zero:
  "safe_divide align (Series ns) (PyInt 0) d = Inr (Arr1 (map (\<lambda>n. d) ns))"
  "safe_divide align (Series ns) (PyFloat (Fin 0)) d = Inr (Arr1 (map (\<lambda>n. d) ns))"
  by (simp_all add: safe_divide_def too_large_def fl_ne_def comp_def split_def)

text \<open>
  C9 fails on Python numbers, where the code misses what it attempts. The function is
  documented as a division that avoids dividing by zero and guards with \<open>denominator != 0\<close>;
  but Python evaluates \<open>numerator / denominator\<close> before \<open>np.where\<close> is called, so
  \<open>safe_divide(10, 0)\<close> raises ZeroDivisionError and the default 0 is not returned, while
  \<open>safe_divide(10, 4)\<close> is 2.5.
\<close>

theorem safe_divide_python_zero_raises:
  "safe_divide align (PyInt 10) (PyInt 0) (Fin 0) = Inl ZeroDivisionError \<and>
   safe_divide align (PyInt 10) (PyInt 0) (Fin 0) \<noteq> Inr (Arr0 (Fin 0)) \<and>
   safe_divide align (PyInt 10) (PyInt 4) (Fin 0) = Inr (Arr0 (Fin 2.5))"
  by (simp add: safe_divide_def too_large_def)

subsection \<open>Frames\<close>

lemma rows_map_column: "rows (map_column c f df) = map (\<lambda>r. r(c := f (r c))) (rows df)"
  by (simp add: map_column_def)

lemma columns_map_column: "columns (map_column c f df) = columns df"
  by (simp add: map_column_def)

lemma rows_set_dtype: "rows (set_dtype c t df) = rows df"
  by (simp add: set_dtype_def)

lemma columns_set_dtype:
  "columns (set_dtype c t df) = map (\<lambda>(n, u). if n = c then (n, t) else (n, u)) (columns df)"
  by (simp add: set_dtype_def)

lemma colnames_map_column: "colnames (map_column c f df) = colnames df"
  by (simp add: colnames_def columns_map_column)

lemma colnames_set_dtype: "colnames (set_dtype c t df) = colnames df"
  by (simp add: colnames_def columns_set_dtype comp_def split_def if_distrib cong: if_cong)

lemma map_of_set_dtype:
  "map_of (map (\<lambda>(n, u). if n = c then (n, t) else (n, u)) xs) k =
     (if k = c then map_option (\<lambda>u. t) (map_of xs k) else map_of xs k)"
  by (induction xs) auto

lemma dtype_of_set_dtype:
  "dtype_of (set_dtype c t df) k =
     (if k = c \<and> c \<in> set (colnames df) then t else dtype_of df k)"
proof (cases "map_of (columns df) c")
  case None
  then have "c \<notin> set (colnames df)"
    by (simp add: colnames_def map_of_eq_None_iff)
  with None show ?thesis
    by (simp add: dtype_of_def columns_set_dtype map_of_set_dtype)
next
  case (Some u)
  then have "c \<in> set (colnames df)"
    by (force simp: colnames_def dest: map_of_SomeD)
  with Some show ?thesis
    by (simp add: dtype_of_def columns_set_dtype map_of_set_dtype)
qed

lemma dtype_of_map_column: "dtype_of (map_column c f df) k = dtype_of df k"
  by (simp add: dtype_of_def columns_map_column)

lemma dtype_of_member:
  "distinct (colnames df) \<Longrightarrow> (c, t) \<in> set (columns df) \<Longrightarrow> dtype_of df c = t"
  by (simp add: dtype_of_def colnames_def)

lemma fold_rows:
  assumes step: "\<And>c d. rows (step c d) = map (\<lambda>r. r(c := f (g d c) (r c))) (rows d)"
    and keep: "\<And>c k d. k \<noteq> c \<Longrightarrow> g (step c d) k = g d k"
  shows "distinct cs \<Longrightarrow>
    rows (fold step cs df) = map (\<lambda>r x. if x \<in> set cs then f (g df x) (r x) else r x) (rows df)"
proof (induction cs arbitrary: df)
  case Nil
  then show ?case by simp
next
  case (Cons c cs)
  then have "rows (fold step cs (step c df)) =
      map (\<lambda>r x. if x \<in> set cs then f (g (step c df) x) (r x) else r x) (rows (step c df))"
    by simp
  also have "\<dots> = map (\<lambda>r x. if x \<in> set cs then f (g df x) (r x) else r x) (rows (step c df))"
  proof -
    have "(if x \<in> set cs then f (g (step c df) x) (r x) else r x) =
        (if x \<in> set cs then f (g df x) (r x) else r x)" for r x
    proof (cases "x \<in> set cs")
      case True
      with Cons.prems have "x \<noteq> c" by auto
      then show ?thesis by (simp add: keep)
    next
      case False
      then show ?thesis by simp
    qed
    then show ?thesis by simp
  qed
  also have "\<dots> = map (\<lambda>r x. if x \<in> set (c # cs) then f (g df x) (r x) else r x) (rows df)"
    using Cons.prems by (auto simp: step fun_eq_iff)
  finally show ?case by simp
qed

lemma fold_colnames:
  assumes step: "\<And>c d. colnames (step c d) = colnames d"
  shows "colnames (fold step cs df) = colnames df"
  by (induction cs arbitrary: df) (simp_all add: step)

lemma fold_keep:
  assumes keep: "\<And>c k d. k \<noteq> c \<Longrightarrow> g (step c d) k = g d k"
  shows "k \<notin> set cs \<Longrightarrow> g (fold step cs df) k = g df k"
  by (induction cs arbitrary: df) (simp_all add: keep)

lemma rows_scale_column:
  "rows (scale_column c d) =
     map (\<lambda>r. r(c := apply_num (to_million (dtype_of d c)) (r c))) (rows d)"
  by (simp add: scale_column_def Let_def rows_set_dtype rows_map_column)

lemma dtype_of_scale_column: "k \<noteq> c \<Longrightarrow> dtype_of (scale_column c d) k = dtype_of d k"
  by (simp add: scale_column_def Let_def dtype_of_set_dtype dtype_of_map_column)

lemma colnames_scale_column: "colnames (scale_column c d) = colnames d"
  by (simp add: scale_column_def Let_def colnames_set_dtype colnames_map_column)

lemma distinct_numeric_columns:
  "distinct (colnames df) \<Longrightarrow> distinct (numeric_columns df)"
  unfolding colnames_def numeric_columns_def by (rule distinct_map_filter)

lemma numeric_columns_iff:
  assumes "distinct (colnames df)"
  shows "c \<in> set (numeric_columns df) \<longleftrightarrow>
     c \<in> set (colnames df) \<and> (dtype_of df c = Int64 \<or> dtype_of df c = Float64)"
proof
  assume "c \<in> set (numeric_columns df)"
  then obtain t where "(c, t) \<in> set (columns df)" "t = Int64 \<or> t = Float64"
    by (auto simp: numeric_columns_def)
  with assms show "c \<in> set (colnames df) \<and> (dtype_of df c = Int64 \<or> dtype_of df c = Float64)"
    by (auto simp: dtype_of_member colnames_def intro: rev_image_eqI)
next
  assume a: "c \<in> set (colnames df) \<and> (dtype_of df c = Int64 \<or> dtype_of df c = Float64)"
  then obtain t where t: "(c, t) \<in> set (columns df)"
    by (auto simp: colnames_def)
  with assms have "dtype_of df c = t" by (rule dtype_of_member)
  with a t show "c \<in> set (numeric_columns df)"
    by (force simp: numeric_columns_def)
qed

lemma rows_convert_to_million:
  "distinct (colnames df) \<Longrightarrow>
   rows (convert_to_million df) =
     map (\<lambda>r x. if x \<in> set (numeric_columns df)
                then apply_num (to_million (dtype_of df x)) (r x) else r x) (rows df)"
  unfolding convert_to_million_def
  by (rule fold_rows [where f = "\<lambda>t. apply_num (to_million t)" and g = dtype_of])
    (simp_all add: rows_scale_column dtype_of_scale_column distinct_numeric_columns)

lemma colnames_convert_to_million: "colnames (convert_to_million df) = colnames df"
  unfolding convert_to_million_def by (rule fold_colnames) (rule colnames_scale_column)

lemma to_million_Float64:
  "to_million Float64 (Fin x) = (if 100000 \<le> \<bar>x\<bar> then Fin (x / 1000000) else Fin x)"
  by (simp add: to_million_def np_abs_def notna_def fl_ge_def)

lemma to_million_Int64:
  "x \<noteq> - (2 ^ 63) \<Longrightarrow>
   to_million Int64 (Fin x) = (if 100000 \<le> \<bar>x\<bar> then Fin (x / 1000000) else Fin x)"
  by (simp add: to_million_def np_abs_def notna_def fl_ge_def)

lemma to_million_NaN: "to_million t NaN = NaN"
  by (simp add: to_million_def notna_def)

lemmas ex_strings = col_company_def col_fiscal_year_def col_fiscal_quarter_def col_sales_def

subsection \<open>Unit scaling\<close>

text \<open>
  C3, as amended: \<open>convert_to_million\<close> keeps the names of the columns and the number of rows
  and works cell by cell. In a column of dtype int64 or float64 every cell becomes
  \<open>to_million\<close> of itself: a finite \<open>x\<close> becomes \<open>x / 1000000\<close> when \<open>100000 \<le> \<bar>x\<bar>\<close> and stays
  \<open>x\<close> below that (in an int64 column for every \<open>x\<close> but \<open>-2^63\<close>), and a missing value stays
  missing. The cells of every other column, be it of texts or of another numeric dtype, are
  unchanged. So one column can hold scaled and unscaled values, as the revenue column of
  \<open>ex_units\<close> does after the conversion.
\<close>

theorem convert_to_million_per_cell:
  assumes "distinct (colnames df)"
  shows "colnames (convert_to_million df) = colnames df \<and>
    length (rows (convert_to_million df)) = length (rows df) \<and>
    (\<forall>i < length (rows df). \<forall>c t. (c, t) \<in> set (columns df) \<longrightarrow>
       (rows (convert_to_million df) ! i) c =
         (if t = Int64 \<or> t = Float64 then apply_num (to_million t) ((rows df ! i) c)
          else (rows df ! i) c)) \<and>
    (\<forall>x. to_million Float64 (Fin x) = (if 100000 \<le> \<bar>x\<bar> then Fin (x / 1000000) else Fin x)) \<and>
    (\<forall>x. x \<noteq> - (2 ^ 63) \<longrightarrow>
       to_million Int64 (Fin x) = (if 100000 \<le> \<bar>x\<bar> then Fin (x / 1000000) else Fin x)) \<and>
    (\<forall>t. to_million t NaN = NaN)"
proof -
  have "(rows (convert_to_million df) ! i) c =
         (if t = Int64 \<or> t = Float64 then apply_num (to_million t) ((rows df ! i) c)
          else (rows df ! i) c)"
    if i: "i < length (rows df)" and m: "(c, t) \<in> set (columns df)" for i c t
  proof -
    from assms m have t: "dtype_of df c = t" by (rule dtype_of_member)
    from m have "c \<in> set (colnames df)" by (force simp: colnames_def)
    with t have "c \<in> set (numeric_columns df) \<longleftrightarrow> t = Int64 \<or> t = Float64"
      by (simp add: numeric_columns_iff [OF assms])
    with i t show ?thesis
      by (simp add: rows_convert_to_million [OF assms])
  qed
  then show ?thesis
    using assms
    by (simp add: rows_convert_to_million colnames_convert_to_million to_million_Float64
        to_million_Int64 to_million_NaN)
qed

theorem convert_to_million_per_cell_witness:
  "distinct (colnames ex_units) \<and>
   (col_sales, Int64) \<in> set (columns ex_units) \<and>
   (rows (convert_to_million ex_units) ! 0) col_sales = Num (Fin 0.25) \<and>
   (rows (convert_to_million ex_units) ! 1) col_sales = Num (Fin 99999) \<and>
   (rows (convert_to_million ex_units) ! 0) col_company = Str ''A''"
proof -
  have d: "distinct (colnames ex_units)"
    by (simp add: ex_units_def colnames_def ex_strings)
  have m: "(col_sales, Int64) \<in> set (columns ex_units)" "(col_company, Object) \<in> set (columns ex_units)"
    by (simp_all add: ex_units_def)
  have l: "0 < length (rows ex_units)" "1 < length (rows ex_units)"
    by (simp_all add: ex_units_def)
  have c: "col_company \<noteq> col_sales"
    by (simp add: ex_strings)
  note t = convert_to_million_per_cell [OF d]
  from t l(1) m(1) have "(rows (convert_to_million ex_units) ! 0) col_sales =
        apply_num (to_million Int64) ((rows ex_units ! 0) col_sales)"
    by simp
  moreover from t l(2) m(1) have "(rows (convert_to_million ex_units) ! 1) col_sales =
        apply_num (to_million Int64) ((rows ex_units ! 1) col_sales)"
    by simp
  moreover from t l(1) m(2) have
      "(rows (convert_to_million ex_units) ! 0) col_company = (rows ex_units ! 0) col_company"
    by simp
  ultimately show ?thesis
    using d c m(1) by (simp add: ex_units_def mk_row_def to_million_Int64)
qed

text \<open>
  C3 as stated fails on a numeric column of another dtype than int64 and float64, which line
  57 does not select: in the uint64 column of \<open>ex_unsigned\<close> the cell 250000 is not scaled.
\<close>

theorem convert_to_million_skips_uint64:
  "dtype_of ex_unsigned col_sales = UInt64 \<and>
   (rows ex_unsigned ! 0) col_sales = Num (Fin 250000) \<and>
   (rows (convert_to_million ex_unsigned) ! 0) col_sales = Num (Fin 250000) \<and>
   (rows (convert_to_million ex_unsigned) ! 0) col_sales \<noteq> Num (Fin (250000 / 1000000))"
proof -
  have "numeric_columns ex_unsigned = []"
    by (simp add: numeric_columns_def ex_unsigned_def)
  then have "convert_to_million ex_unsigned = ex_unsigned"
    by (simp add: convert_to_million_def)
  then show ?thesis
    by (simp add: ex_unsigned_def dtype_of_def mk_row_def ex_strings)
qed

subsection \<open>Loading\<close>

lemma rows_clean_column:
  "rows (clean_column s n nd c d) =
     map (\<lambda>r. r(c := clean_cell s n (dtype_of d c) (r c))) (rows d)"
  by (simp add: clean_column_def Let_def rows_set_dtype rows_map_column)

lemma dtype_of_clean_column_other:
  "k \<noteq> c \<Longrightarrow> dtype_of (clean_column s n nd c d) k = dtype_of d k"
  by (simp add: clean_column_def Let_def dtype_of_set_dtype dtype_of_map_column)

lemma dtype_of_clean_column:
  "c \<in> set (colnames d) \<Longrightarrow>
   dtype_of (clean_column s n nd c d) c =
     nd (map (\<lambda>r. clean_text s (dtype_of d c) (r c)) (rows d))"
  by (simp add: clean_column_def Let_def dtype_of_set_dtype colnames_map_column)

lemma colnames_clean_column: "colnames (clean_column s n nd c d) = colnames d"
  by (simp add: clean_column_def Let_def colnames_set_dtype colnames_map_column)

lemma colnames_clean: "colnames (fold (clean_column s n nd) cs df) = colnames df"
  by (rule fold_colnames) (rule colnames_clean_column)

lemma rows_clean:
  "distinct cs \<Longrightarrow>
   rows (fold (clean_column s n nd) cs df) =
     map (\<lambda>r x. if x \<in> set cs then clean_cell s n (dtype_of df x) (r x) else r x) (rows df)"
  by (rule fold_rows [where f = "clean_cell s n" and g = dtype_of])
    (simp_all add: rows_clean_column dtype_of_clean_column_other)

lemma dtype_clean:
  "distinct cs \<Longrightarrow> c \<in> set cs \<Longrightarrow> c \<in> set (colnames df) \<Longrightarrow>
   dtype_of (fold (clean_column s n nd) cs df) c =
     nd (map (\<lambda>r. clean_text s (dtype_of df c) (r c)) (rows df))"
proof (induction cs arbitrary: df)
  case Nil
  then show ?case by simp
next
  case (Cons a cs)
  show ?case
  proof (cases "a = c")
    case True
    with Cons.prems have "c \<notin> set cs" by simp
    then have "dtype_of (fold (clean_column s n nd) cs (clean_column s n nd c df)) c =
        dtype_of (clean_column s n nd c df) c"
      by (rule fold_keep [where g = dtype_of, rotated]) (rule dtype_of_clean_column_other)
    with True Cons.prems(3) show ?thesis
      by (simp add: dtype_of_clean_column)
  next
    case False
    with Cons.prems have "distinct cs" "c \<in> set cs"
        "c \<in> set (colnames (clean_column s n nd a df))"
      by (simp_all add: colnames_clean_column)
    from Cons.IH [OF this] False show ?thesis
      by (simp add: dtype_of_clean_column_other rows_clean_column comp_def)
  qed
qed

lemma distinct_num_cols: "distinct (colnames df) \<Longrightarrow> distinct (num_cols df)"
  by (simp add: num_cols_def)

lemma to_million_NaN_iff: "to_million t x = NaN \<longleftrightarrow> x = NaN"
  by (cases x) (auto simp: to_million_def notna_def fl_ge_def)

lemma to_million_zero: "to_million t (Fin 0) = Fin 0"
  by (simp add: to_million_def np_abs_def notna_def fl_ge_def)

lemma to_million_finite: "\<exists>y. to_million t (Fin x) = Fin y"
proof -
  have d: "fl_div (Fin x) (Fin 1000000) = Fin (x / 1000000)" by simp
  have "to_million t (Fin x) = Fin (x / 1000000) \<or> to_million t (Fin x) = Fin x"
    unfolding to_million_def d by (rule if_split [THEN iffD2]) blast
  then show ?thesis by blast
qed

lemma fillna_not_NaN: "fillna (Fin 0) x \<noteq> NaN"
  by (simp add: fillna_def)

lemma loaded_cell:
  assumes "distinct (colnames df)" "i < length (rows df)" "c \<in> set (colnames df)"
    "c \<notin> set id_columns"
  shows "\<exists>L. load_financial_data s n nd (Some df) = Some L \<and>
     length (rows L) = length (rows df) \<and>
     (rows L ! i) c =
       (let t = nd (map (\<lambda>r. clean_text s (dtype_of df c) (r c)) (rows df));
            v = clean_cell s n (dtype_of df c) ((rows df ! i) c)
        in if t = Int64 \<or> t = Float64 then apply_num (to_million t) v else v)"
proof -
  let ?C = "fold (clean_column s n nd) (num_cols df) df"
  let ?t = "nd (map (\<lambda>r. clean_text s (dtype_of df c) (r c)) (rows df))"
  have c: "c \<in> set (num_cols df)" using assms(3,4) by (simp add: num_cols_def)
  have d: "distinct (colnames ?C)" using assms(1) by (simp add: colnames_clean)
  have t: "dtype_of ?C c = ?t"
    using assms(1,3) c by (simp add: dtype_clean distinct_num_cols)
  have n: "c \<in> set (numeric_columns ?C) \<longleftrightarrow> ?t = Int64 \<or> ?t = Float64"
    using assms(3) by (simp add: numeric_columns_iff [OF d] colnames_clean t)
  have r: "rows ?C = map (\<lambda>r x. if x \<in> set (num_cols df) then
      clean_cell s n (dtype_of df x) (r x) else r x) (rows df)"
    using assms(1) by (simp add: rows_clean distinct_num_cols)
  have "(rows (convert_to_million ?C) ! i) c =
      (if ?t = Int64 \<or> ?t = Float64
       then apply_num (to_million ?t) (clean_cell s n (dtype_of df c) ((rows df ! i) c))
       else clean_cell s n (dtype_of df c) ((rows df ! i) c))"
    using assms(2) c n t by (simp add: rows_convert_to_million [OF d] r)
  moreover have "length (rows (convert_to_million ?C)) = length (rows df)"
    by (simp add: rows_convert_to_million [OF d] r)
  ultimately show ?thesis by (simp add: load_financial_data_def Let_def)
qed

lemma ex_sheet_distinct: "distinct (colnames ex_sheet)"
  by (simp add: ex_sheet_def colnames_def ex_strings)

text \<open>
  C4, as amended: for a sheet that exists, every cell of every column other than the three
  identifying columns is, after loading, the number obtained by taking the text of the cell,
  replacing a text that is the hyphen or empty by \<open>0\<close>, parsing it, putting 0 for NaN, and
  scaling the unit when the parsed column is of dtype int64 or float64. A cell that was the
  hyphen or the empty string is parsed as \<open>0\<close>, a cell that does not parse is 0, no cell is
  NaN or a string, and the cell is finite whenever the parser gave a finite value or failed.
\<close>

theorem load_cleans_cells:
  assumes "distinct (colnames df)" "i < length (rows df)" "c \<in> set (colnames df)"
    "c \<notin> set id_columns"
  shows "\<exists>L. load_financial_data str_of to_numeric numeric_dtype (Some df) = Some L \<and>
     length (rows L) = length (rows df) \<and>
     (let raw = (rows df ! i) c;
          cleaned = series_replace '''' ''0''
            (series_replace ''-'' ''0'' (astype_str str_of (dtype_of df c) raw));
          parsed = to_numeric cleaned;
          t = numeric_dtype (map (\<lambda>r. clean_text str_of (dtype_of df c) (r c)) (rows df));
          v = (rows L ! i) c
      in v = Num (if t = Int64 \<or> t = Float64 then to_million t (fillna (Fin 0) parsed)
                  else fillna (Fin 0) parsed) \<and>
         (raw = Str ''-'' \<or> raw = Str '''' \<longrightarrow> cleaned = ''0'') \<and>
         (parsed = NaN \<longrightarrow> v = Num (Fin 0)) \<and>
         v \<noteq> Num NaN \<and> (\<forall>s. v \<noteq> Str s) \<and>
         (is_finite parsed \<or> parsed = NaN \<longrightarrow> (\<exists>x. v = Num (Fin x))))"
proof -
  define raw where "raw = (rows df ! i) c"
  define cleaned where "cleaned = series_replace '''' ''0''
    (series_replace ''-'' ''0'' (astype_str str_of (dtype_of df c) raw))"
  define parsed where "parsed = to_numeric cleaned"
  define t where "t = numeric_dtype (map (\<lambda>r. clean_text str_of (dtype_of df c) (r c)) (rows df))"
  from loaded_cell [OF assms, of str_of to_numeric numeric_dtype] obtain L where
    L: "load_financial_data str_of to_numeric numeric_dtype (Some df) = Some L"
      "length (rows L) = length (rows df)"
      "(rows L ! i) c =
        (if t = Int64 \<or> t = Float64
         then apply_num (to_million t) (clean_cell str_of to_numeric (dtype_of df c) raw)
         else clean_cell str_of to_numeric (dtype_of df c) raw)"
    unfolding Let_def t_def raw_def by blast
  define v where "v = (rows L ! i) c"
  have v: "v = Num (if t = Int64 \<or> t = Float64 then to_million t (fillna (Fin 0) parsed)
      else fillna (Fin 0) parsed)"
    by (simp add: v_def L(3) clean_cell_def clean_text_def parsed_def cleaned_def)
  have hy: "cleaned = ''0''" if "raw = Str ''-'' \<or> raw = Str ''''"
    using that by (auto simp: cleaned_def series_replace_def astype_str_def)
  have na: "v = Num (Fin 0)" if "parsed = NaN"
    using that by (simp add: v fillna_def to_million_zero)
  have nn: "v \<noteq> Num NaN"
    by (simp add: v to_million_NaN_iff fillna_not_NaN)
  have ns: "\<forall>s. v \<noteq> Str s"
    by (simp add: v)
  have fin: "\<exists>x. v = Num (Fin x)" if "is_finite parsed \<or> parsed = NaN"
  proof (cases parsed)
    case (Fin a)
    then have "fillna (Fin 0) parsed = Fin a" by (simp add: fillna_def)
    with to_million_finite [of t a] show ?thesis unfolding v by auto
  next
    case NaN
    then show ?thesis using na by blast
  qed (use that in \<open>simp_all add: is_finite_def\<close>)
  show ?thesis
    using L(1,2) v hy na nn ns fin
    unfolding v_def Let_def raw_def [symmetric] cleaned_def [symmetric] parsed_def [symmetric]
      t_def [symmetric]
    by blast
qed

theorem load_cleans_cells_witness:
  "distinct (colnames ex_sheet) \<and> 1 < length (rows ex_sheet) \<and>
   col_sales \<in> set (colnames ex_sheet) \<and> col_sales \<notin> set id_columns \<and>
   ''ROE'' \<in> set (colnames ex_sheet) \<and> ''ROE'' \<notin> set id_columns \<and>
   (rows ex_sheet ! 0) col_sales = Str ''-'' \<and>
   (\<exists>L. load_financial_data ex_str_of ex_to_numeric ex_numeric_dtype (Some ex_sheet) = Some L \<and>
        (rows L ! 0) col_sales = Num (Fin 0) \<and> (rows L ! 1) ''ROE'' = Num (Fin 0))"
proof -
  have h: "0 < length (rows ex_sheet)" "1 < length (rows ex_sheet)"
      "col_sales \<in> set (colnames ex_sheet)" "col_sales \<notin> set id_columns"
      "''ROE'' \<in> set (colnames ex_sheet)" "''ROE'' \<notin> set id_columns"
    by (simp_all add: ex_sheet_def colnames_def id_columns_def ex_strings)
  have raw: "(rows ex_sheet ! 0) col_sales = Str ''-''" "(rows ex_sheet ! 1) ''ROE'' = Num NaN"
    by (simp_all add: ex_sheet_def mk_row_def ex_strings)
  have p: "ex_to_numeric (series_replace '''' ''0'' (series_replace ''-'' ''0''
      (astype_str ex_str_of (dtype_of ex_sheet col_sales) (Str ''-'')))) = Fin 0"
    by (simp add: ex_to_numeric_def astype_str_def series_replace_def)
  have q: "ex_to_numeric (series_replace '''' ''0'' (series_replace ''-'' ''0''
      (astype_str ex_str_of (dtype_of ex_sheet ''ROE'') (Num NaN)))) = NaN"
    by (simp add: ex_to_numeric_def ex_str_of_def astype_str_def series_replace_def)
  from load_cleans_cells [OF ex_sheet_distinct h(1,3,4), of ex_str_of ex_to_numeric ex_numeric_dtype]
  obtain L t where L: "load_financial_data ex_str_of ex_to_numeric ex_numeric_dtype (Some ex_sheet) = Some L"
    and a: "(rows L ! 0) col_sales =
      Num (if t = Int64 \<or> t = Float64
           then to_million t (fillna (Fin 0) (ex_to_numeric (series_replace '''' ''0''
             (series_replace ''-'' ''0''
               (astype_str ex_str_of (dtype_of ex_sheet col_sales) ((rows ex_sheet ! 0) col_sales))))))
           else fillna (Fin 0) (ex_to_numeric (series_replace '''' ''0''
             (series_replace ''-'' ''0''
               (astype_str ex_str_of (dtype_of ex_sheet col_sales) ((rows ex_sheet ! 0) col_sales))))))"
    unfolding Let_def by blast
  from load_cleans_cells [OF ex_sheet_distinct h(2,5,6), of ex_str_of ex_to_numeric ex_numeric_dtype]
  obtain L' where L': "load_financial_data ex_str_of ex_to_numeric ex_numeric_dtype (Some ex_sheet) = Some L'"
    and b: "ex_to_numeric (series_replace '''' ''0'' (series_replace ''-'' ''0''
        (astype_str ex_str_of (dtype_of ex_sheet ''ROE'') ((rows ex_sheet ! 1) ''ROE'')))) = NaN \<longrightarrow>
      (rows L' ! 1) ''ROE'' = Num (Fin 0)"
    unfolding Let_def by blast
  from L L' have e: "L' = L" by simp
  from a have "(rows L ! 0) col_sales = Num (Fin 0)"
    by (simp only: raw(1) p) (simp add: fillna_def to_million_zero)
  moreover from b q raw(2) e have "(rows L ! 1) ''ROE'' = Num (Fin 0)" by simp
  ultimately show ?thesis using L h raw ex_sheet_distinct by blast
qed

text \<open>
  C4 as stated fails where the parser gives an infinity: the text \<open>inf\<close> parses to the float
  infinity, which is not NaN, so \<open>fillna(0)\<close> keeps it and the loaded cell is not finite.
\<close>

theorem load_keeps_infinity:
  "map_option (\<lambda>L. (rows L ! 2) col_sales)
     (load_financial_data ex_str_of ex_to_numeric ex_numeric_dtype (Some ex_sheet)) =
     Some (Num PInf) \<and>
   \<not> is_finite PInf"
proof -
  have "2 < length (rows ex_sheet)" "col_sales \<in> set (colnames ex_sheet)"
      "col_sales \<notin> set id_columns"
    by (simp_all add: ex_sheet_def colnames_def id_columns_def ex_strings)
  from loaded_cell [OF ex_sheet_distinct this, of ex_str_of ex_to_numeric ex_numeric_dtype]
  obtain L where "load_financial_data ex_str_of ex_to_numeric ex_numeric_dtype (Some ex_sheet) = Some L"
    "(rows L ! 2) col_sales =
       (let t = ex_numeric_dtype
              (map (\<lambda>r. clean_text ex_str_of (dtype_of ex_sheet col_sales) (r col_sales))
                 (rows ex_sheet));
            v = clean_cell ex_str_of ex_to_numeric (dtype_of ex_sheet col_sales)
                  ((rows ex_sheet ! 2) col_sales)
        in if t = Int64 \<or> t = Float64 then apply_num (to_million t) v else v)"
    by blast
  moreover have "(rows ex_sheet ! 2) col_sales = Str ''inf''"
    by (simp add: ex_sheet_def mk_row_def ex_strings)
  moreover have "clean_cell ex_str_of ex_to_numeric t (Str ''inf'') = Num PInf" for t
    by (simp add: clean_cell_def clean_text_def astype_str_def series_replace_def
        ex_to_numeric_def fillna_def)
  moreover have "to_million t PInf = PInf" for t
    by (simp add: to_million_def np_abs_def notna_def fl_ge_def)
  ultimately show ?thesis by (simp add: is_finite_def Let_def)
qed

subsection \<open>Default selection of an industry group\<close>

lemma dict_lookup_distinct:
  "distinct (map fst items) \<Longrightarrow> (k, v) \<in> set items \<Longrightarrow> dict_lookup items k = Some v"
  unfolding dict_lookup_def by (rule map_of_is_SomeI) (simp_all add: rev_map [symmetric])

lemmas group_strings = grp_aeon_def grp_drugstore_def grp_homecenter_def
  grp_super_national_def grp_super_east_def grp_super_west_def grp_custom_def

lemma INDUSTRY_GROUPS_distinct: "distinct (map fst INDUSTRY_GROUPS)"
  by (simp add: INDUSTRY_GROUPS_def group_strings)

lemma get_data_names_preset:
  "get_data_names (take n (filter (\<lambda>name. get_data_name name \<in> A) preset)) =
   take n (filter (\<lambda>d. d \<in> A) (get_data_names preset))"
  by (simp add: get_data_names_def take_map filter_map comp_def)

lemma Str_the_str: "is_str c \<Longrightarrow> Str (the_str c) = c"
  by (cases c) simp_all

lemma sorted_unique_Inr:
  "sorted_unique cs = Inr av \<Longrightarrow>
   sorted av \<and> distinct av \<and> set av = {s. Str s \<in> set cs}"
proof -
  assume a: "sorted_unique cs = Inr av"
  then have all: "list_all is_str cs" and av: "av = sort (remdups (map the_str cs))"
    by (auto simp: sorted_unique_def split: if_splits)
  have "the_str ` set cs = {s. Str s \<in> set cs}"
  proof (intro set_eqI iffI)
    fix s assume "s \<in> the_str ` set cs"
    then obtain c where c: "c \<in> set cs" "s = the_str c" by blast
    with all have "is_str c" by (simp add: list_all_iff)
    with c show "s \<in> {s. Str s \<in> set cs}" by (simp add: Str_the_str)
  next
    fix s assume "s \<in> {s. Str s \<in> set cs}"
    then have "Str s \<in> set cs" by simp
    then show "s \<in> the_str ` set cs" by force
  qed
  with av show ?thesis by simp
qed

lemmas name_strings = fuji_retailing_def fuji_def maxvalu_tokai_def maxvaluu_tokai_def
lemmas company_strings = aeon_hokkaido_def aeon_kyushu_def tsuruha_def

lemma ex_available: "available_data_names ex_companies = Inr [''PPIH'', ''USMH'', tsuruha, fuji]"
  by (simp add: available_data_names_def getcol_def colnames_def ex_companies_def mk_row_def
      sorted_unique_def name_strings company_strings)

text \<open>
  C7: for every industry group of \<open>INDUSTRY_GROUPS\<close> other than the custom one, the default
  selection is computed without error, and it is the preset of the group, in the preset's
  order, reduced to the labels whose data name occurs in the table, cut after the seventh:
  in data names, the first seven of the preset's data names that are available. For the
  custom group it is the first five of the sorted display labels of the available companies.
  The available data names are the distinct company names of the table, sorted.
\<close>

theorem default_selection:
  "(\<forall>(g, preset) \<in> set INDUSTRY_GROUPS. g \<noteq> grp_custom \<longrightarrow>
      (\<exists>sel. default_display_names g av = Inr sel \<and>
         get_data_names sel = take 7 (filter (\<lambda>d. d \<in> set av) (get_data_names preset)) \<and>
         length sel \<le> 7 \<and> subseq sel preset)) \<and>
   default_display_names grp_custom av = Inr (take 5 (sort (map get_display_name av))) \<and>
   (available_data_names df_raw = Inr av \<longrightarrow>
      sorted av \<and> distinct av \<and>
      set av = {s. Str s \<in> (\<lambda>r. r col_company) ` set (rows df_raw)})"
proof (intro conjI ballI impI)
  fix x assume x: "x \<in> set INDUSTRY_GROUPS"
  show "case x of (g, preset) \<Rightarrow> g \<noteq> grp_custom \<longrightarrow>
      (\<exists>sel. default_display_names g av = Inr sel \<and>
         get_data_names sel = take 7 (filter (\<lambda>d. d \<in> set av) (get_data_names preset)) \<and>
         length sel \<le> 7 \<and> subseq sel preset)"
  proof (cases x)
    case (Pair g preset)
    with x have "dict_lookup INDUSTRY_GROUPS g = Some preset"
      using INDUSTRY_GROUPS_distinct by (simp add: dict_lookup_distinct)
    then have "g \<noteq> grp_custom \<Longrightarrow> default_display_names g av =
        Inr (take 7 (filter (\<lambda>name. get_data_name name \<in> set av) preset))"
      by (simp add: default_display_names_def)
    moreover have "subseq (take 7 (filter (\<lambda>name. get_data_name name \<in> set av) preset)) preset"
      by (metis subseq_filter_left subseq_order.trans sublist_take sublist_imp_subseq
          prefix_imp_sublist take_is_prefix)
    ultimately show ?thesis
      using Pair by (simp add: get_data_names_preset)
  qed
next
  show "default_display_names grp_custom av = Inr (take 5 (sort (map get_display_name av)))"
    by (simp add: default_display_names_def available_display_names_def)
next
  assume "available_data_names df_raw = Inr av"
  then have "sorted_unique (map (\<lambda>r. r col_company) (rows df_raw)) = Inr av"
    by (auto simp: available_data_names_def getcol_def split: if_splits)
  from sorted_unique_Inr [OF this]
  show "sorted av" "distinct av"
    "set av = {s. Str s \<in> (\<lambda>r. r col_company) ` set (rows df_raw)}"
    by simp_all
qed

theorem default_selection_witness:
  "(grp_aeon, [aeon_hokkaido, aeon_kyushu, maxvalu_tokai, fuji_retailing, ''U.S.M.H'', tsuruha])
     \<in> set INDUSTRY_GROUPS \<and>
   grp_aeon \<noteq> grp_custom \<and>
   available_data_names ex_companies = Inr [''PPIH'', ''USMH'', tsuruha, fuji] \<and>
   default_display_names grp_aeon [''PPIH'', ''USMH'', tsuruha, fuji] =
     Inr [fuji_retailing, ''U.S.M.H'', tsuruha] \<and>
   get_data_names [fuji_retailing, ''U.S.M.H'', tsuruha] = [fuji, ''USMH'', tsuruha] \<and>
   default_display_names grp_custom [''PPIH'', ''USMH'', tsuruha, fuji] =
     Inr [''PPIH'', ''U.S.M.H'', tsuruha, fuji_retailing] \<and>
   sorted [''PPIH'', ''USMH'', tsuruha, fuji]"
proof -
  let ?av = "[''PPIH'', ''USMH'', tsuruha, fuji]"
  let ?preset = "[aeon_hokkaido, aeon_kyushu, maxvalu_tokai, fuji_retailing, ''U.S.M.H'', tsuruha]"
  have m: "(grp_aeon, ?preset) \<in> set INDUSTRY_GROUPS"
    by (simp add: INDUSTRY_GROUPS_def)
  have n: "grp_aeon \<noteq> grp_custom"
    by (simp add: group_strings)
  have d: "get_data_names ?preset =
      [aeon_hokkaido, aeon_kyushu, maxvaluu_tokai, fuji, ''USMH'', tsuruha]"
    by (simp add: get_data_names_def get_data_name_def dict_get_def dict_lookup_def
        COMPANY_NAME_MAPPING_def name_strings company_strings)
  have f: "take 7 (filter (\<lambda>d. d \<in> set ?av)
      [aeon_hokkaido, aeon_kyushu, maxvaluu_tokai, fuji, ''USMH'', tsuruha]) =
      [fuji, ''USMH'', tsuruha]"
    by (simp add: name_strings company_strings)
  have g: "map get_display_name ?av = [''PPIH'', ''U.S.M.H'', tsuruha, fuji_retailing]"
    by (simp add: get_display_name_def dict_get_def dict_lookup_def
        COMPANY_NAME_REVERSE_MAPPING_def COMPANY_NAME_MAPPING_def name_strings company_strings)
  have s: "sort [''PPIH'', ''U.S.M.H'', tsuruha, fuji_retailing] =
      [''PPIH'', ''U.S.M.H'', tsuruha, fuji_retailing]"
    by (simp add: name_strings company_strings)
  note t = default_selection [of ?av ex_companies]
  from t m n obtain sel where sel: "default_display_names grp_aeon ?av = Inr sel"
    "get_data_names sel = take 7 (filter (\<lambda>d. d \<in> set ?av) (get_data_names ?preset))"
    by blast
  have v: "filter (\<lambda>name. get_data_name name \<in> set ?av) ?preset =
      [fuji_retailing, ''U.S.M.H'', tsuruha]"
    by (simp add: get_data_name_def dict_get_def dict_lookup_def COMPANY_NAME_MAPPING_def
        name_strings company_strings)
  have lk: "dict_lookup INDUSTRY_GROUPS grp_aeon = Some ?preset"
    by (rule dict_lookup_distinct [OF INDUSTRY_GROUPS_distinct m])
  have "default_display_names grp_aeon ?av =
      Inr (take 7 (filter (\<lambda>name. get_data_name name \<in> set ?av) ?preset))"
    by (simp only: default_display_names_def lk n if_False option.case)
  then have "default_display_names grp_aeon ?av = Inr [fuji_retailing, ''U.S.M.H'', tsuruha]"
    by (simp only: v) simp
  with sel(1) have e: "sel = [fuji_retailing, ''U.S.M.H'', tsuruha]"
    by simp
  from sel(2) have "get_data_names sel = [fuji, ''USMH'', tsuruha]"
    by (simp only: d f)
  with sel(1) have a: "default_display_names grp_aeon ?av = Inr [fuji_retailing, ''U.S.M.H'', tsuruha]"
    and b: "get_data_names [fuji_retailing, ''U.S.M.H'', tsuruha] = [fuji, ''USMH'', tsuruha]"
    by (simp_all only: e)
  from t have "default_display_names grp_custom ?av = Inr (take 5 (sort (map get_display_name ?av)))"
    by blast
  then have c: "default_display_names grp_custom ?av =
      Inr [''PPIH'', ''U.S.M.H'', tsuruha, fuji_retailing]"
    by (simp only: g s) simp
  from t ex_available have "sorted ?av" by blast
  with m n ex_available a b c show ?thesis by blast
qed

subsection \<open>The current-period subset\<close>

lemma filter_by_mask: "map snd (filter fst (zip (map f xs) xs)) = filter f xs"
  by (induction xs) simp_all

lemma map2_conj: "map2 (\<and>) (map p xs) (map q xs) = map (\<lambda>x. p x \<and> q x) xs"
  by (induction xs) simp_all

lemma isin_iff: "isin vals c \<longleftrightarrow> (\<exists>s \<in> set vals. c = Str s)"
  by (cases c) auto

lemma eq_int_iff: "eq_int y c \<longleftrightarrow> c = Num (Fin (real_of_int y))"
  by (cases "(y, c)" rule: eq_int.cases) auto

lemma current_period_rows:
  assumes "col_company \<in> set (colnames df_raw)" "col_fiscal_year \<in> set (colnames df_raw)"
  shows "current_period df_raw sel y =
    Inr (df_raw\<lparr>rows := filter (\<lambda>r. isin sel (r col_company) \<and> eq_int y (r col_fiscal_year))
      (rows df_raw)\<rparr>)"
  using assms
  by (simp add: current_period_def getcol_def bool_index_def map2_conj [where xs = "rows df_raw", simplified]
      filter_by_mask comp_def)

text \<open>
  C6: when the two identifying columns are present, the current-period subset is computed
  without error; it has the columns of the table and exactly those rows of the table, in the
  table's order, whose company is one of the selected data names and whose fiscal year is the
  selected year.
\<close>

theorem current_period_filter:
  assumes "col_company \<in> set (colnames df_raw)" "col_fiscal_year \<in> set (colnames df_raw)"
  shows "\<exists>df_compare. current_period df_raw selected_companies selected_year = Inr df_compare \<and>
     columns df_compare = columns df_raw \<and>
     rows df_compare =
       filter (\<lambda>r. (\<exists>s \<in> set selected_companies. r col_company = Str s) \<and>
                    r col_fiscal_year = Num (Fin (real_of_int selected_year))) (rows df_raw) \<and>
     subseq (rows df_compare) (rows df_raw)"
  by (simp add: current_period_rows [OF assms] isin_iff eq_int_iff)

theorem current_period_filter_witness:
  "col_company \<in> set (colnames ex_table) \<and> col_fiscal_year \<in> set (colnames ex_table) \<and>
   (\<exists>df_compare. current_period ex_table [''A'', ''B''] 2020 = Inr df_compare \<and>
      rows df_compare = [ex_record ''A'' 2020 150, ex_record ''B'' 2020 80])"
proof -
  have c: "col_company \<in> set (colnames ex_table)" "col_fiscal_year \<in> set (colnames ex_table)"
    by (simp_all add: ex_table_def colnames_def)
  have "filter (\<lambda>r. (\<exists>s \<in> set [''A'', ''B'']. r col_company = Str s) \<and>
                    r col_fiscal_year = Num (Fin (real_of_int 2020))) (rows ex_table) =
      [ex_record ''A'' 2020 150, ex_record ''B'' 2020 80]"
    by (simp add: ex_table_def ex_record_def mk_row_def ex_strings)
  with current_period_filter [OF c, of "[''A'', ''B'']" 2020] c show ?thesis
    by auto
qed

subsection \<open>Revenue growth index\<close>

lemma zip_map_same: "zip (map f xs) xs = map (\<lambda>x. (f x, x)) xs"
  by (induction xs) simp_all

lemma rows_bool_index: "rows (bool_index df (map p (rows df))) = filter p (rows df)"
  by (simp add: bool_index_def filter_by_mask)

lemma colnames_bool_index: "colnames (bool_index df m) = colnames df"
  by (simp add: colnames_def bool_index_def)

lemma getcol_present: "c \<in> set (colnames df) \<Longrightarrow> getcol df c = Inr (map (\<lambda>r. r c) (rows df))"
  by (simp add: getcol_def)

lemma rows_loc_set:
  "rows (loc_set (map p (rows df)) c v df) =
   map (\<lambda>r. if p r then r(c := v) else if c \<in> set (colnames df) then r else r(c := Num NaN))
     (rows df)"
  by (simp add: loc_set_def zip_map_same comp_def)

lemma colnames_loc_set: "set (colnames (loc_set m c v df)) = insert c (set (colnames df))"
  by (auto simp: loc_set_def colnames_def)

lemma assign_growth_eq:
  "col_company \<in> set (colnames g) \<Longrightarrow>
   assign_growth c v g =
     Inr (loc_set (map (\<lambda>r. r col_company = Str c) (rows g)) col_sales_growth (Num v) g)"
  by (simp add: assign_growth_def getcol_present eq_str_def comp_def)

lemma base_rows:
  "bool_index df_raw (map2 (\<and>) (map (eq_str c) (map (\<lambda>r. r col_company) (rows df_raw)))
       (map (eq_int y) (map (\<lambda>r. r col_fiscal_year) (rows df_raw)))) =
   df_raw\<lparr>rows := filter (\<lambda>r. r col_company = Str c \<and> r col_fiscal_year = Num (Fin (real_of_int y)))
      (rows df_raw)\<rparr>"
  by (simp add: bool_index_def map2_conj [where xs = "rows df_raw", simplified]
      filter_by_mask comp_def eq_str_def eq_int_iff)

lemma map_filter_agree:
  "list_all2 A xs ys \<Longrightarrow> (\<And>x y. A x y \<Longrightarrow> P x = P y \<and> k x = k y) \<Longrightarrow>
   map k (filter P xs) = map k (filter P ys)"
  by (induction rule: list_all2_induct) auto


lemma growth_column_fresh: "col_company \<noteq> col_sales_growth" "col_sales \<noteq> col_sales_growth"
  by (simp_all add: col_company_def col_sales_def col_sales_growth_def)

lemma assign_growth_inv:
  assumes gc: "col_company \<in> set (colnames g)" "col_sales \<in> set (colnames g)"
    and ag: "list_all2 (\<lambda>r r'. \<forall>k. k \<noteq> col_sales_growth \<longrightarrow> r' k = r k) xs (rows g)"
    and dn: "\<forall>i<length xs. \<forall>d\<in>S. (xs ! i) col_company = Str d \<longrightarrow>
        col_sales_growth \<in> set (colnames g) \<and> (rows g ! i) col_sales_growth = Num (G d)"
    and v: "v = G c"
  shows "\<exists>g'. assign_growth c v g = Inr g' \<and>
     col_company \<in> set (colnames g') \<and> col_sales \<in> set (colnames g') \<and>
     list_all2 (\<lambda>r r'. \<forall>k. k \<noteq> col_sales_growth \<longrightarrow> r' k = r k) xs (rows g') \<and>
     (\<forall>i<length xs. \<forall>d\<in>insert c S. (xs ! i) col_company = Str d \<longrightarrow>
        col_sales_growth \<in> set (colnames g') \<and> (rows g' ! i) col_sales_growth = Num (G d))"
proof -
  let ?h = "\<lambda>r. if r col_company = Str c then r(col_sales_growth := Num v)
      else if col_sales_growth \<in> set (colnames g) then r else r(col_sales_growth := Num NaN)"
  let ?g = "loc_set (map (\<lambda>r. r col_company = Str c) (rows g)) col_sales_growth (Num v) g"
  have e: "assign_growth c v g = Inr ?g"
    by (rule assign_growth_eq [OF gc(1)])
  have r: "rows ?g = map ?h (rows g)"
    by (rule rows_loc_set)
  have len: "length (rows g) = length xs"
    using ag by (simp add: list_all2_lengthD)
  have c1: "col_company \<in> set (colnames ?g)" "col_sales \<in> set (colnames ?g)"
    "col_sales_growth \<in> set (colnames ?g)"
    using gc by (simp_all add: colnames_loc_set)
  have c2: "list_all2 (\<lambda>r r'. \<forall>k. k \<noteq> col_sales_growth \<longrightarrow> r' k = r k) xs (rows ?g)"
    unfolding r list_all2_map2
    by (rule list_all2_mono [OF ag]) simp
  have c3: "(rows ?g ! i) col_sales_growth = Num (G d)"
    if i: "i < length xs" and d: "d \<in> insert c S" and s: "(xs ! i) col_company = Str d" for i d
  proof -
    from ag i have "(rows g ! i) col_company = (xs ! i) col_company"
      using growth_column_fresh(1) by (simp add: list_all2_conv_all_nth)
    with s have k: "(rows g ! i) col_company = Str d" by simp
    have n: "rows ?g ! i = ?h (rows g ! i)"
      unfolding r using i len by simp
    show ?thesis
    proof (cases "d = c")
      case True
      with k n v show ?thesis by simp
    next
      case False
      with d have "d \<in> S" by simp
      with dn i s have "col_sales_growth \<in> set (colnames g)"
        "(rows g ! i) col_sales_growth = Num (G d)" by blast+
      with k n False show ?thesis by simp
    qed
  qed
  from e c1 c2 c3 show ?thesis by blast
qed


lemma current_sales_eq:
  assumes gc: "col_sales \<in> set (colnames g)"
    and ag: "list_all2 (\<lambda>r r'. \<forall>k. k \<noteq> col_sales_growth \<longrightarrow> r' k = r k) xs (rows g)"
  shows "getcol (bool_index g (map (eq_str c) (map (\<lambda>r. r col_company) (rows g)))) col_sales =
     Inr (map (\<lambda>r. r col_sales) (filter (\<lambda>r. r col_company = Str c) xs))"
proof -
  have "map (eq_str c) (map (\<lambda>r. r col_company) (rows g)) =
      map (\<lambda>r. r col_company = Str c) (rows g)"
    by (simp add: eq_str_def comp_def)
  then have "rows (bool_index g (map (eq_str c) (map (\<lambda>r. r col_company) (rows g)))) =
      filter (\<lambda>r. r col_company = Str c) (rows g)"
    by (simp only: rows_bool_index)
  moreover have "map (\<lambda>r. r col_sales) (filter (\<lambda>r. r col_company = Str c) xs) =
      map (\<lambda>r. r col_sales) (filter (\<lambda>r. r col_company = Str c) (rows g))"
    by (rule map_filter_agree [OF ag]) (simp add: growth_column_fresh)
  ultimately show ?thesis
    using gc by (simp add: getcol_def colnames_bool_index)
qed

lemma growth_step_inv:
  assumes raw: "col_company \<in> set (colnames df_raw)" "col_fiscal_year \<in> set (colnames df_raw)"
      "col_sales \<in> set (colnames df_raw)"
    and num: "\<forall>r \<in> set (rows df_raw). \<exists>x. r col_sales = Num x"
    and sub: "\<forall>r \<in> set xs. \<exists>x. r col_sales = Num x"
    and gc: "col_company \<in> set (colnames g)" "col_sales \<in> set (colnames g)"
    and ag: "list_all2 (\<lambda>r r'. \<forall>k. k \<noteq> col_sales_growth \<longrightarrow> r' k = r k) xs (rows g)"
    and dn: "\<forall>i<length xs. \<forall>d\<in>S. (xs ! i) col_company = Str d \<longrightarrow>
        col_sales_growth \<in> set (colnames g) \<and> (rows g ! i) col_sales_growth = Num (G d)"
    and G: "\<And>d. G d = spec_growth_index df_raw y d
        (cell_num (hd (filter (\<lambda>r. r col_company = Str d) xs) col_sales))"
  shows "\<exists>g'. growth_step df_raw y c g = Inr g' \<and>
     col_company \<in> set (colnames g') \<and> col_sales \<in> set (colnames g') \<and>
     list_all2 (\<lambda>r r'. \<forall>k. k \<noteq> col_sales_growth \<longrightarrow> r' k = r k) xs (rows g') \<and>
     (\<forall>i<length xs. \<forall>d\<in>insert c S. (xs ! i) col_company = Str d \<longrightarrow>
        col_sales_growth \<in> set (colnames g') \<and> (rows g' ! i) col_sales_growth = Num (G d))"
proof -
  let ?base = "filter (\<lambda>r. r col_company = Str c \<and>
      r col_fiscal_year = Num (Fin (real_of_int (y - 5)))) (rows df_raw)"
  let ?cur = "filter (\<lambda>r. r col_company = Str c) xs"
  note cs = current_sales_eq [OF gc(2) ag, of c]
  have st: "growth_step df_raw y c g =
     (if ?base \<noteq> [] then
        (case hd (map (\<lambda>r. r col_sales) ?base) of
           Str s \<Rightarrow> Inl TypeError
         | Num base_sales \<Rightarrow>
             if fl_gt base_sales (Fin 0) then
               (if length (map (\<lambda>r. r col_sales) ?cur) > 0 then
                  (case hd (map (\<lambda>r. r col_sales) ?cur) of
                     Str s \<Rightarrow> Inl TypeError
                   | Num current \<Rightarrow> assign_growth c (fl_div current base_sales) g)
                else Inr g)
             else assign_growth c (Fin 1) g)
      else assign_growth c (Fin 1) g)"
  proof -
    have bs: "getcol (df_raw\<lparr>rows := ?base\<rparr>) col_sales = Inr (map (\<lambda>r. r col_sales) ?base)"
      using raw(3) by (simp add: getcol_def colnames_def)
    show ?thesis
      apply (simp only: growth_step_def getcol_present [OF raw(1)] getcol_present [OF raw(2)]
          getcol_present [OF gc(1)] sum.case base_rows bs cs Let_def)
      apply simp
      done
  qed
  note inv = assign_growth_inv [OF gc ag dn]
  show ?thesis
  proof (cases ?base)
    case Nil
    then have "G c = Fin 1" by (simp add: G spec_growth_index_def)
    with inv [of "Fin 1" c] st Nil show ?thesis by simp
  next
    case (Cons b bs)
    then have "b \<in> set ?base" by simp
    then have "b \<in> set (rows df_raw)" by simp
    with num obtain x where x: "b col_sales = Num x" by blast
    show ?thesis
    proof (cases "fl_gt x (Fin 0)")
      case False
      with Cons x have "G c = Fin 1" by (simp add: G spec_growth_index_def)
      with inv [of "Fin 1" c] st Cons x False show ?thesis by simp
    next
      case gt: True
      show ?thesis
      proof (cases ?cur)
        case Nil
        have "(xs ! i) col_company \<noteq> Str c" if "i < length xs" for i
        proof
          assume "(xs ! i) col_company = Str c"
          with that have "xs ! i \<in> set ?cur" by simp
          with Nil show False by simp
        qed
        with dn have "\<forall>i<length xs. \<forall>d\<in>insert c S. (xs ! i) col_company = Str d \<longrightarrow>
            col_sales_growth \<in> set (colnames g) \<and> (rows g ! i) col_sales_growth = Num (G d)"
          by blast
        moreover from st Cons x gt Nil have "growth_step df_raw y c g = Inr g" by simp
        ultimately show ?thesis using gc ag by blast
      next
        case q: (Cons q qs)
        then have "q \<in> set ?cur" by simp
        with sub obtain z where z: "q col_sales = Num z" by auto
        from Cons x gt q z have "G c = fl_div z x" by (simp add: G spec_growth_index_def)
        with inv [of "fl_div z x" c] st Cons x gt q z show ?thesis by simp
      qed
    qed
  qed
qed


lemma growth_loop_inv:
  assumes raw: "col_company \<in> set (colnames df_raw)" "col_fiscal_year \<in> set (colnames df_raw)"
      "col_sales \<in> set (colnames df_raw)"
    and num: "\<forall>r \<in> set (rows df_raw). \<exists>x. r col_sales = Num x"
    and sub: "\<forall>r \<in> set xs. \<exists>x. r col_sales = Num x"
    and G: "\<And>d. G d = spec_growth_index df_raw y d
        (cell_num (hd (filter (\<lambda>r. r col_company = Str d) xs) col_sales))"
  shows "col_company \<in> set (colnames g) \<Longrightarrow> col_sales \<in> set (colnames g) \<Longrightarrow>
     list_all2 (\<lambda>r r'. \<forall>k. k \<noteq> col_sales_growth \<longrightarrow> r' k = r k) xs (rows g) \<Longrightarrow>
     \<forall>i<length xs. \<forall>d\<in>S. (xs ! i) col_company = Str d \<longrightarrow>
        col_sales_growth \<in> set (colnames g) \<and> (rows g ! i) col_sales_growth = Num (G d) \<Longrightarrow>
     \<exists>g'. growth_loop df_raw y cs g = Inr g' \<and>
       list_all2 (\<lambda>r r'. \<forall>k. k \<noteq> col_sales_growth \<longrightarrow> r' k = r k) xs (rows g') \<and>
       (\<forall>i<length xs. \<forall>d\<in>set cs \<union> S. (xs ! i) col_company = Str d \<longrightarrow>
          col_sales_growth \<in> set (colnames g') \<and> (rows g' ! i) col_sales_growth = Num (G d))"
proof (induction cs arbitrary: g S)
  case Nil
  then show ?case by simp
next
  case (Cons c cs)
  from growth_step_inv [OF raw num sub Cons.prems G]
  obtain g1 where g1: "growth_step df_raw y c g = Inr g1"
    "col_company \<in> set (colnames g1)" "col_sales \<in> set (colnames g1)"
    "list_all2 (\<lambda>r r'. \<forall>k. k \<noteq> col_sales_growth \<longrightarrow> r' k = r k) xs (rows g1)"
    "\<forall>i<length xs. \<forall>d\<in>insert c S. (xs ! i) col_company = Str d \<longrightarrow>
        col_sales_growth \<in> set (colnames g1) \<and> (rows g1 ! i) col_sales_growth = Num (G d)"
    by blast
  from Cons.IH [OF g1(2-5)] g1(1) show ?case by simp
qed

lemma ex_current_period: "current_period ex_table [''A'', ''B'', ''C''] 2020 = Inr ex_current"
proof -
  have c: "col_company \<in> set (colnames ex_table)" "col_fiscal_year \<in> set (colnames ex_table)"
    by (simp_all add: ex_table_def colnames_def)
  show ?thesis
    unfolding current_period_rows [OF c]
    by (simp add: ex_current_def ex_table_def ex_record_def mk_row_def ex_strings)
qed

text \<open>
  C2: let \<open>df_raw\<close> have the columns of the company, the fiscal year and the revenue, the
  revenue cells being numbers, and let \<open>df_compare\<close> be a frame with the columns of the
  company and the revenue whose rows belong to selected companies and hold numbers as revenue
  (the current-period subset is such a frame). Then the loop of line 297 ends without an
  exception, and every row gets as growth index the value the specification words, with the
  selected year minus five as base year: the current revenue of the company (that of its
  first row in \<open>df_compare\<close>) divided by the revenue of the base row when there is a base row
  and its revenue is greater than 0, and 1.0 when the base revenue is not greater than 0 or
  there is no base row. No other cell changes.
\<close>

theorem growth_index_base_year:
  assumes "col_company \<in> set (colnames df_raw)" "col_fiscal_year \<in> set (colnames df_raw)"
      "col_sales \<in> set (colnames df_raw)"
    and "\<forall>r \<in> set (rows df_raw). \<exists>x. r col_sales = Num x"
    and "col_company \<in> set (colnames df_compare)" "col_sales \<in> set (colnames df_compare)"
    and "\<forall>r \<in> set (rows df_compare). (\<exists>x. r col_sales = Num x) \<and>
        (\<exists>company \<in> set selected_companies. r col_company = Str company)"
  shows "\<exists>df_growth. growth_loop df_raw selected_year selected_companies df_compare = Inr df_growth \<and>
     length (rows df_growth) = length (rows df_compare) \<and>
     (\<forall>i<length (rows df_compare). \<exists>company current others.
        (rows df_compare ! i) col_company = Str company \<and>
        filter (\<lambda>r. r col_company = Str company) (rows df_compare) = current # others \<and>
        col_sales_growth \<in> set (colnames df_growth) \<and>
        (rows df_growth ! i) col_sales_growth =
          Num (spec_growth_index df_raw selected_year company (cell_num (current col_sales))) \<and>
        (\<forall>k. k \<noteq> col_sales_growth \<longrightarrow> (rows df_growth ! i) k = (rows df_compare ! i) k))"
proof -
  let ?xs = "rows df_compare"
  define G where "G d = spec_growth_index df_raw selected_year d
      (cell_num (hd (filter (\<lambda>r. r col_company = Str d) ?xs) col_sales))" for d
  have sub: "\<forall>r \<in> set ?xs. \<exists>x. r col_sales = Num x"
    using assms(7) by blast
  have ag: "list_all2 (\<lambda>r r'. \<forall>k. k \<noteq> col_sales_growth \<longrightarrow> r' k = r k) ?xs ?xs"
    by (simp add: list_all2_same)
  have dn: "\<forall>i<length ?xs. \<forall>d\<in>{}. (?xs ! i) col_company = Str d \<longrightarrow>
      col_sales_growth \<in> set (colnames df_compare) \<and>
      (rows df_compare ! i) col_sales_growth = Num (G d)"
    by simp
  from growth_loop_inv [OF assms(1-4) sub G_def assms(5,6) ag dn, of selected_companies]
  obtain g where g: "growth_loop df_raw selected_year selected_companies df_compare = Inr g"
    "list_all2 (\<lambda>r r'. \<forall>k. k \<noteq> col_sales_growth \<longrightarrow> r' k = r k) ?xs (rows g)"
    "\<forall>i<length ?xs. \<forall>d\<in>set selected_companies \<union> {}. (?xs ! i) col_company = Str d \<longrightarrow>
        col_sales_growth \<in> set (colnames g) \<and> (rows g ! i) col_sales_growth = Num (G d)"
    by blast
  have len: "length (rows g) = length ?xs"
    using g(2) by (simp add: list_all2_lengthD)
  have "\<exists>company current others.
        (?xs ! i) col_company = Str company \<and>
        filter (\<lambda>r. r col_company = Str company) ?xs = current # others \<and>
        col_sales_growth \<in> set (colnames g) \<and>
        (rows g ! i) col_sales_growth =
          Num (spec_growth_index df_raw selected_year company (cell_num (current col_sales))) \<and>
        (\<forall>k. k \<noteq> col_sales_growth \<longrightarrow> (rows g ! i) k = (?xs ! i) k)"
    if i: "i < length ?xs" for i
  proof -
    from i have m: "?xs ! i \<in> set ?xs" by simp
    with assms(7) obtain d where d: "d \<in> set selected_companies" "(?xs ! i) col_company = Str d"
      by blast
    from m d(2) have "?xs ! i \<in> set (filter (\<lambda>r. r col_company = Str d) ?xs)" by simp
    then obtain q qs where q: "filter (\<lambda>r. r col_company = Str d) ?xs = q # qs"
      by (cases "filter (\<lambda>r. r col_company = Str d) ?xs") auto
    from g(3) i d have "col_sales_growth \<in> set (colnames g)"
      "(rows g ! i) col_sales_growth = Num (G d)" by auto
    moreover have "G d = spec_growth_index df_raw selected_year d (cell_num (q col_sales))"
      by (simp add: G_def q)
    moreover from g(2) i have "\<forall>k. k \<noteq> col_sales_growth \<longrightarrow> (rows g ! i) k = (?xs ! i) k"
      by (simp add: list_all2_conv_all_nth)
    ultimately show ?thesis using d(2) q by auto
  qed
  with g(1) len show ?thesis by blast
qed

theorem growth_index_base_year_witness:
  "current_period ex_table [''A'', ''B'', ''C''] 2020 = Inr ex_current \<and>
   (\<exists>df_growth. growth_loop ex_table 2020 [''A'', ''B'', ''C''] ex_current = Inr df_growth \<and>
      (rows df_growth ! 0) col_company = Str ''A'' \<and>
      (rows df_growth ! 0) col_sales_growth = Num (Fin 1.5) \<and>
      (rows df_growth ! 1) col_company = Str ''B'' \<and>
      (rows df_growth ! 1) col_sales_growth = Num (Fin 1) \<and>
      (rows df_growth ! 2) col_company = Str ''C'' \<and>
      (rows df_growth ! 2) col_sales_growth = Num (Fin 1))"
proof -
  have raw: "col_company \<in> set (colnames ex_table)" "col_fiscal_year \<in> set (colnames ex_table)"
      "col_sales \<in> set (colnames ex_table)"
    by (simp_all add: ex_table_def colnames_def)
  have num: "\<forall>r \<in> set (rows ex_table). \<exists>x. r col_sales = Num x"
    by (simp add: ex_table_def ex_record_def mk_row_def ex_strings)
  have cur: "col_company \<in> set (colnames ex_current)" "col_sales \<in> set (colnames ex_current)"
    by (simp_all add: ex_current_def ex_table_def colnames_def)
  have sel: "\<forall>r \<in> set (rows ex_current). (\<exists>x. r col_sales = Num x) \<and>
      (\<exists>company \<in> set [''A'', ''B'', ''C'']. r col_company = Str company)"
    by (simp add: ex_current_def ex_record_def mk_row_def ex_strings)
  have len: "length (rows ex_current) = 3"
    by (simp add: ex_current_def)
  have fresh: "col_company \<noteq> col_sales_growth"
    by (simp add: col_company_def col_sales_growth_def)
  have rws: "(rows ex_current ! 0) = ex_record ''A'' 2020 150"
      "(rows ex_current ! 1) = ex_record ''B'' 2020 80"
      "(rows ex_current ! 2) = ex_record ''C'' 2020 60"
    by (simp_all add: ex_current_def)
  have co: "ex_record a y v col_company = Str a" "ex_record a y v col_sales = Num (Fin v)" for a y v
    by (simp_all add: ex_record_def mk_row_def ex_strings)
  have fa: "filter (\<lambda>r. r col_company = Str ''A'') (rows ex_current) = [ex_record ''A'' 2020 150]"
    and fb: "filter (\<lambda>r. r col_company = Str ''B'') (rows ex_current) = [ex_record ''B'' 2020 80]"
    and fc: "filter (\<lambda>r. r col_company = Str ''C'') (rows ex_current) = [ex_record ''C'' 2020 60]"
    by (simp_all add: ex_current_def co)
  have ga: "spec_growth_index ex_table 2020 ''A'' (Fin 150) = Fin 1.5"
    and gb: "spec_growth_index ex_table 2020 ''B'' (Fin 80) = Fin 1"
    and gc: "spec_growth_index ex_table 2020 ''C'' (Fin 60) = Fin 1"
    by (simp_all add: spec_growth_index_def ex_table_def ex_record_def mk_row_def ex_strings
        fl_gt_def)
  from growth_index_base_year [OF raw num cur sel, of 2020]
  obtain g where g: "growth_loop ex_table 2020 [''A'', ''B'', ''C''] ex_current = Inr g"
    and v: "\<forall>i<length (rows ex_current). \<exists>company current others.
        (rows ex_current ! i) col_company = Str company \<and>
        filter (\<lambda>r. r col_company = Str company) (rows ex_current) = current # others \<and>
        col_sales_growth \<in> set (colnames g) \<and>
        (rows g ! i) col_sales_growth =
          Num (spec_growth_index ex_table 2020 company (cell_num (current col_sales))) \<and>
        (\<forall>k. k \<noteq> col_sales_growth \<longrightarrow> (rows g ! i) k = (rows ex_current ! i) k)"
    by blast
  have pick: "(rows g ! i) col_sales_growth = Num G \<and> (rows g ! i) col_company = Str a"
    if i: "i < 3" and r: "rows ex_current ! i = ex_record a y s"
      and f: "filter (\<lambda>r. r col_company = Str a) (rows ex_current) = [ex_record a y s]"
      and G: "spec_growth_index ex_table 2020 a (Fin s) = G" for i a y s G
  proof -
    from i len have "i < length (rows ex_current)" by simp
    from v [rule_format, OF this] obtain company current others where
      h: "(rows ex_current ! i) col_company = Str company"
        "filter (\<lambda>r. r col_company = Str company) (rows ex_current) = current # others"
        "(rows g ! i) col_sales_growth =
          Num (spec_growth_index ex_table 2020 company (cell_num (current col_sales)))"
        "\<forall>k. k \<noteq> col_sales_growth \<longrightarrow> (rows g ! i) k = (rows ex_current ! i) k"
      by blast
    from h(1) have e: "company = a" unfolding r co by simp
    from h(2) have "current = ex_record a y s" unfolding e f by simp
    with h(3) have "(rows g ! i) col_sales_growth = Num G" unfolding e by (simp add: co G)
    moreover from h(4) fresh have "(rows g ! i) col_company = Str a" by (simp add: r co)
    ultimately show ?thesis by simp
  qed
  from pick [OF _ rws(1) fa ga]
  have a: "(rows g ! 0) col_sales_growth = Num (Fin 1.5)" "(rows g ! 0) col_company = Str ''A''"
    by simp_all
  from pick [OF _ rws(2) fb gb]
  have b: "(rows g ! 1) col_sales_growth = Num (Fin 1)" "(rows g ! 1) col_company = Str ''B''"
    by simp_all
  from pick [OF _ rws(3) fc gc]
  have c: "(rows g ! 2) col_sales_growth = Num (Fin 1)" "(rows g ! 2) col_company = Str ''C''"
    by simp_all
  from ex_current_period g a b c show ?thesis by blast
qed

subsection \<open>Metric tables and KPI series\<close>













end
